theory Spec2Isabelle
  imports Complex_Main "HOL-Library.Log_Nat"
begin

section \<open>The Python values that coolors\_parser.py computes with\<close>

text \<open>
  The script \<^verbatim>\<open>build_scripts/coolors_parser.py\<close> has two functions of its own,
  \<^verbatim>\<open>parse_coolors_xml\<close> and \<^verbatim>\<open>create_colormap_json\<close>, and a \<^verbatim>\<open>main\<close> that
  composes them. They call four things of the Python language and its standard library:
  \<^verbatim>\<open>int(...)\<close> on an attribute text, the true division \<^verbatim>\<open>/\<close> of two integers,
  \<^verbatim>\<open>round(x, 4)\<close> on a float, and \<^verbatim>\<open>xml.etree.ElementTree\<close>. This section models the
  first three as CPython defines them; the XML parser is a parameter of the model, and so
  is the type of the document text, which only the parser reads.

  Tags, attribute names and attribute texts are lists of 8-bit characters, read as the
  code points 0 to 255.
\<close>

subsection \<open>Exceptions\<close>

text \<open>
  Every exception that the two functions can raise is a value. The constructor says where
  it is raised, \<open>class_of\<close> gives its Python class:
  \<^item> \<open>ET_ParseError d\<close>: \<^verbatim>\<open>xml.etree.ElementTree.ParseError\<close>, raised by
    \<^verbatim>\<open>ET.fromstring\<close> with the parser's diagnostic \<open>d\<close> when it rejects the markup;
  \<^item> \<open>UnicodeEncodeError m\<close>: raised by \<^verbatim>\<open>ET.fromstring\<close> when the text cannot be
    encoded for the parser (a lone surrogate, as \<^verbatim>\<open>surrogateescape\<close> on the standard
    input produces them);
  \<^item> \<open>TypeError_int_None\<close>: the \<^verbatim>\<open>TypeError\<close> of \<^verbatim>\<open>int(None)\<close>, whose message
    (\<^verbatim>\<open>int() argument must be a string, a bytes-like object or a real number, not 'NoneType'\<close>)
    is a constant;
  \<^item> \<open>ValueError_int_literal s\<close>: the \<^verbatim>\<open>ValueError\<close> of \<^verbatim>\<open>int(s)\<close> on a text \<open>s\<close>
    that is no integer literal; its message is \<^verbatim>\<open>invalid literal for int() with base 10: \<close>
    followed by the \<^verbatim>\<open>repr\<close> of \<open>s\<close>, cut to 200 characters;
  \<^item> \<open>ValueError_int_digits n\<close>: the \<^verbatim>\<open>ValueError\<close> of \<^verbatim>\<open>int(s)\<close> when \<open>s\<close> has
    \<open>n\<close> digits and \<open>n\<close> exceeds the interpreter's limit; its message holds the limit
    and \<open>n\<close>, and not \<open>s\<close>;
  \<^item> \<open>ValueError m\<close>: \<^verbatim>\<open>raise ValueError(m)\<close> in the script itself.

  \<^verbatim>\<open>UnicodeEncodeError\<close> is a subclass of \<^verbatim>\<open>ValueError\<close>, and the four classes are
  otherwise unrelated: \<open>except_catches C e\<close> says that a clause \<^verbatim>\<open>except C\<close> catches
  \<open>e\<close>.
\<close>

datatype exception_class =
  ParseError_class | UnicodeEncodeError_class | TypeError_class | ValueError_class

datatype py_error =
    ET_ParseError string
  | UnicodeEncodeError string
  | TypeError_int_None
  | ValueError_int_literal string
  | ValueError_int_digits nat
  | ValueError string

fun class_of :: "py_error \<Rightarrow> exception_class" where
  "class_of (ET_ParseError d) = ParseError_class"
| "class_of (UnicodeEncodeError m) = UnicodeEncodeError_class"
| "class_of TypeError_int_None = TypeError_class"
| "class_of (ValueError_int_literal s) = ValueError_class"
| "class_of (ValueError_int_digits n) = ValueError_class"
| "class_of (ValueError m) = ValueError_class"

definition except_catches :: "exception_class \<Rightarrow> py_error \<Rightarrow> bool" where
  "except_catches C e =
     (class_of e = C \<or> (C = ValueError_class \<and> class_of e = UnicodeEncodeError_class))"

subsection \<open>\<^verbatim>\<open>int(s)\<close> on a string, base 10\<close>

text \<open>
  CPython's \<^verbatim>\<open>PyLong_FromString\<close> with base 10: skip white space, read an optional
  sign, read the longest run of digits and underscores, which must be digits separated by
  single underscores, refuse more digits than \<^verbatim>\<open>sys.get_int_max_str_digits()\<close> (4300
  unless the interpreter is configured otherwise), skip white space, and expect the end of
  the string. White space is what \<^verbatim>\<open>Py_ISSPACE\<close> accepts, and the two code points
  below 256 that \<^verbatim>\<open>int\<close> turns into a space first (U+0085 and U+00A0).
\<close>

definition is_space :: "char \<Rightarrow> bool" where
  "is_space c = ((of_char c :: nat) \<in> {9, 10, 11, 12, 13, 32, 133, 160})"

definition is_digit :: "char \<Rightarrow> bool" where
  "is_digit c = (48 \<le> (of_char c :: nat) \<and> (of_char c :: nat) \<le> 57)"

definition digit_value :: "char \<Rightarrow> nat" where
  "digit_value c = of_char c - 48"

definition decimal :: "string \<Rightarrow> nat" where
  "decimal ds = foldl (\<lambda>acc c. 10 * acc + digit_value c) 0 ds"

fun grouped :: "string \<Rightarrow> bool" where
  "grouped [] = False"
| "grouped [c] = is_digit c"
| "grouped (c # d # cs) =
     (is_digit c \<and> (if d = CHR ''_'' then grouped cs else grouped (d # cs)))"

definition int_max_str_digits :: nat where
  "int_max_str_digits = 4300"

definition int_of_str :: "string \<Rightarrow> py_error + int" where
  "int_of_str s =
     (let s1 = dropWhile is_space s;
          negative = (s1 \<noteq> [] \<and> hd s1 = CHR ''-'');
          s2 = (if s1 \<noteq> [] \<and> (hd s1 = CHR ''+'' \<or> hd s1 = CHR ''-'') then tl s1 else s1);
          body = takeWhile (\<lambda>c. is_digit c \<or> c = CHR ''_'') s2;
          rest = dropWhile (\<lambda>c. is_digit c \<or> c = CHR ''_'') s2;
          digits = filter is_digit body
      in if \<not> grouped body then Inl (ValueError_int_literal s)
         else if int_max_str_digits < length digits
           then Inl (ValueError_int_digits (length digits))
         else if \<not> list_all is_space rest then Inl (ValueError_int_literal s)
         else Inr (if negative then - int (decimal digits) else int (decimal digits)))"

text \<open>
  \<^verbatim>\<open>int(x)\<close> where \<open>x\<close> is what \<^verbatim>\<open>Element.get\<close> returned: a string, or \<^verbatim>\<open>None\<close>
  for an absent attribute.
\<close>

fun py_int :: "string option \<Rightarrow> py_error + int" where
  "py_int None = Inl TypeError_int_None"
| "py_int (Some s) = int_of_str s"

subsection \<open>Floats: true division and \<^verbatim>\<open>round\<close>\<close>

text \<open>
  A finite float is modelled by the rational number it denotes. \<open>to_double x\<close> is the
  binary64 value nearest to \<open>x\<close>, ties to the even significand, for \<open>\<bar>x\<bar> < 2 ^ 1024\<close>:
  the unit in the last place is \<open>2 ^ (e - 52)\<close> where \<open>e\<close> is the exponent of \<open>x\<close>, and
  at least \<open>-1022\<close> (subnormal numbers).
\<close>

type_synonym py_float = rat

definition round_half_even :: "rat \<Rightarrow> int" where
  "round_half_even x =
     (let f = \<lfloor>x\<rfloor>; d = x - of_int f
      in if d < 1 / 2 then f
         else if 1 / 2 < d then f + 1
         else if even f then f else f + 1)"

definition ilog2 :: "rat \<Rightarrow> int" where
  "ilog2 x =
     (let k = bitlen (fst (quotient_of x)) - bitlen (snd (quotient_of x))
      in if 2 powi k \<le> x then k else k - 1)"

definition to_double :: "rat \<Rightarrow> py_float" where
  "to_double x =
     (if x = 0 then 0
      else let u = 2 powi (max (ilog2 \<bar>x\<bar>) (- 1022) - 52)
           in of_int (round_half_even (x / u)) * u)"

text \<open>
  \<^verbatim>\<open>a / b\<close> on two Python integers is the correctly rounded quotient. Python raises
  \<^verbatim>\<open>ZeroDivisionError\<close> when \<open>b\<close> is zero; the script divides only under the guard
  \<^verbatim>\<open>num_colors > 1\<close>, by \<^verbatim>\<open>num_colors - 1\<close>.
\<close>

definition py_truediv :: "int \<Rightarrow> int \<Rightarrow> py_float" where
  "py_truediv a b = to_double (of_int a / of_int b)"

text \<open>
  \<^verbatim>\<open>round(x, ndigits)\<close> on a float, for \<open>0 \<le> ndigits\<close>: CPython converts \<open>x\<close> to the
  decimal string with \<open>ndigits\<close> digits after the point that is nearest to the exact value
  of \<open>x\<close> (ties to even), and converts that string back to the nearest float.
\<close>

definition py_round :: "py_float \<Rightarrow> nat \<Rightarrow> py_float" where
  "py_round x ndigits =
     to_double (of_int (round_half_even (x * 10 ^ ndigits)) / 10 ^ ndigits)"

text \<open>
  \<^verbatim>\<open>f"{x}"\<close> of a value that is a string or \<^verbatim>\<open>None\<close>: \<^verbatim>\<open>str(None)\<close> is the text
  \<^verbatim>\<open>None\<close>.
\<close>

fun py_format :: "string option \<Rightarrow> string" where
  "py_format None = ''None''"
| "py_format (Some s) = s"

section \<open>The data of the script\<close>

text \<open>
  The color dictionary \<^verbatim>\<open>{'name', 'hex', 'r', 'g', 'b'}\<close> that \<^verbatim>\<open>parse_coolors_xml\<close>
  builds, the stop \<^verbatim>\<open>{"position", "color": {"r", "g", "b"}}\<close> and the colormap
  \<^verbatim>\<open>{"name", "stops"}\<close> that \<^verbatim>\<open>create_colormap_json\<close> builds. The keys \<open>r\<close>,
  \<open>g\<close>, \<open>b\<close> are shared by the color dictionary and the stop's color. The colormap's
  key \<^verbatim>\<open>name\<close> is the field \<open>cm_name\<close>.
\<close>

record rgb =
  r :: int
  g :: int
  b :: int

record color_record = rgb +
  name :: "string option"
  hex :: "string option"

record gradient_stop =
  position :: py_float
  color :: rgb

record colormap =
  cm_name :: "string option"
  stops :: "gradient_stop list"

subsection \<open>The element tree\<close>

text \<open>
  What \<^verbatim>\<open>ET.fromstring\<close> returns: an element with its tag, its attributes and its child
  elements in document order. \<^verbatim>\<open>elem.get(key)\<close> is the attribute's text, or \<^verbatim>\<open>None\<close>.
  \<^verbatim>\<open>root.findall(tag)\<close> with a plain tag name yields the direct children that carry this
  tag, in document order.
\<close>

datatype element = Element (tag: string) (attrib: "(string \<times> string) list") (children: "element list")

definition get :: "element \<Rightarrow> string \<Rightarrow> string option" where
  "get elem key = map_of (attrib elem) key"

definition findall :: "element \<Rightarrow> string \<Rightarrow> element list" where
  "findall root_elem path = filter (\<lambda>e. tag e = path) (children root_elem)"

text \<open>
  \<^verbatim>\<open>ET.fromstring\<close> itself is the standard library's parser and not part of the script:
  it is a parameter, a function from the document text to the root element, or to the
  exception it raises. That is a \<^verbatim>\<open>ParseError\<close> when the parser rejects the markup, and
  can be another exception, such as the \<^verbatim>\<open>UnicodeEncodeError\<close> of a text with a lone
  surrogate. The script reads the document text nowhere else, so its type is a parameter
  too.
\<close>

type_synonym 'text xml_parser = "'text \<Rightarrow> py_error + element"

section \<open>\<^verbatim>\<open>parse_coolors_xml\<close>\<close>

text \<open>
  The loop \<^verbatim>\<open>for color_elem in root.findall('color')\<close>, with the list \<^verbatim>\<open>colors\<close> it
  appends to. The dictionary display evaluates \<^verbatim>\<open>get('name')\<close>, \<^verbatim>\<open>get('hex')\<close>, then
  \<^verbatim>\<open>int(get('r'))\<close>, \<^verbatim>\<open>int(get('g'))\<close>, \<^verbatim>\<open>int(get('b'))\<close> in this order; the first
  \<^verbatim>\<open>int\<close> that raises ends the function. There is no \<^verbatim>\<open>try\<close> in the function: an
  exception of \<^verbatim>\<open>ET.fromstring\<close> or of \<^verbatim>\<open>int\<close> leaves it as it is.
\<close>

fun colors_loop :: "element list \<Rightarrow> color_record list \<Rightarrow> py_error + color_record list" where
  "colors_loop [] colors = Inr colors"
| "colors_loop (color_elem # rest) colors =
     (case py_int (get color_elem ''r'') of
        Inl e \<Rightarrow> Inl e
      | Inr rv \<Rightarrow>
     (case py_int (get color_elem ''g'') of
        Inl e \<Rightarrow> Inl e
      | Inr gv \<Rightarrow>
     (case py_int (get color_elem ''b'') of
        Inl e \<Rightarrow> Inl e
      | Inr bv \<Rightarrow>
          colors_loop rest
            (colors @ [\<lparr>r = rv, g = gv, b = bv,
                        name = get color_elem ''name'', hex = get color_elem ''hex''\<rparr>]))))"

definition parse_coolors_xml :: "'text xml_parser \<Rightarrow> 'text \<Rightarrow> py_error + color_record list" where
  "parse_coolors_xml fromstring xml_content =
     (case fromstring xml_content of
        Inl e \<Rightarrow> Inl e
      | Inr root_elem \<Rightarrow> colors_loop (findall root_elem ''color'') [])"

section \<open>\<^verbatim>\<open>create_colormap_json\<close>\<close>

text \<open>
  The loop \<^verbatim>\<open>for i, color in enumerate(colors)\<close>, with the index \<open>i\<close> and the list
  \<^verbatim>\<open>stops\<close> it appends to. The local variables \<^verbatim>\<open>color\<close>, \<^verbatim>\<open>position\<close> and
  \<^verbatim>\<open>stops\<close> are \<open>c\<close>, \<open>pos\<close> and \<open>acc\<close> here, since the dictionary keys have
  these names.
\<close>

fun stops_loop :: "nat \<Rightarrow> nat \<Rightarrow> color_record list \<Rightarrow> gradient_stop list \<Rightarrow> gradient_stop list" where
  "stops_loop num_colors i [] acc = acc"
| "stops_loop num_colors i (c # rest) acc =
     (let pos = (if 1 < num_colors then py_truediv (int i) (int num_colors - 1) else 0)
      in stops_loop num_colors (i + 1) rest
           (acc @ [\<lparr>position = py_round pos 4,
                    color = \<lparr>r = r c, g = g c, b = b c\<rparr>\<rparr>]))"

text \<open>
  The second argument is the parameter \<^verbatim>\<open>name\<close>, \<open>None\<close> when the caller gives none.
\<close>

definition create_colormap_json :: "color_record list \<Rightarrow> string option \<Rightarrow> py_error + colormap" where
  "create_colormap_json colors name_arg =
     (if colors = [] then Inl (ValueError ''No colors provided'')
      else
        let name' =
              (case name_arg of
                 None \<Rightarrow>
                   if 2 \<le> length colors
                   then Some (py_format (name (hd colors)) @ '' '' @ py_format (name (last colors)))
                   else name (hd colors)
               | Some n \<Rightarrow> Some n);
            num_colors = length colors
        in Inr \<lparr>cm_name = name', stops = stops_loop num_colors 0 colors []\<rparr>)"

section \<open>\<^verbatim>\<open>main\<close>\<close>

text \<open>
  The body of \<^verbatim>\<open>main\<close> after the arguments are read: the result is the colormap handed
  to \<^verbatim>\<open>json.dump\<close>, or \<open>None\<close> when the run ends with \<^verbatim>\<open>sys.exit(1)\<close> and nothing is
  dumped (an exception of either function, or an empty list of colors).
\<close>

definition main :: "'text xml_parser \<Rightarrow> 'text \<Rightarrow> string option \<Rightarrow> colormap option" where
  "main fromstring xml_content name_arg =
     (case parse_coolors_xml fromstring xml_content of
        Inl e \<Rightarrow> None
      | Inr colors \<Rightarrow>
          if colors = [] then None
          else (case create_colormap_json colors name_arg of
                  Inl e \<Rightarrow> None
                | Inr colormap \<Rightarrow> Some colormap))"

section \<open>Properties of the float operations\<close>

text \<open>
  Rounding to the nearest integer and rounding to the nearest binary64 value are monotone,
  and exact on the values they can represent. These are the facts about \<^verbatim>\<open>/\<close> and
  \<^verbatim>\<open>round\<close> that the positions of the stops rest on.
\<close>

lemma round_half_even_of_int: "round_half_even (of_int n) = n"
  by (simp add: round_half_even_def)

lemma round_half_even_bounds: "\<lfloor>x\<rfloor> \<le> round_half_even x \<and> round_half_even x \<le> \<lfloor>x\<rfloor> + 1"
  by (simp add: round_half_even_def Let_def)

lemma round_half_even_mono:
  assumes "x \<le> y"
  shows "round_half_even x \<le> round_half_even y"
proof (cases "\<lfloor>x\<rfloor> = \<lfloor>y\<rfloor>")
  case True
  then have "x - of_int \<lfloor>x\<rfloor> \<le> y - of_int \<lfloor>y\<rfloor>"
    using assms by simp
  then show ?thesis
    using True by (auto simp: round_half_even_def Let_def)
next
  case False
  have "\<lfloor>x\<rfloor> \<le> \<lfloor>y\<rfloor>"
    using assms by (rule floor_mono)
  with False have "\<lfloor>x\<rfloor> + 1 \<le> \<lfloor>y\<rfloor>"
    by simp
  then show ?thesis
    using round_half_even_bounds [of x] round_half_even_bounds [of y] by linarith
qed

lemma ilog2_bounds:
  assumes "0 < x"
  shows "2 powi (ilog2 x) \<le> x \<and> x < 2 powi (ilog2 x + 1)"
proof -
  obtain a c where q: "quotient_of x = (a, c)"
    by (cases "quotient_of x")
  have c: "0 < c"
    using q by (rule quotient_of_denom_pos)
  have x: "x = of_int a / of_int c"
    using q by (rule quotient_of_div)
  have a: "0 < a"
    using assms c unfolding x by (simp add: zero_less_divide_iff)
  define la where "la = bitlen a"
  define lc where "lc = bitlen c"
  have la: "1 \<le> la" and lc: "1 \<le> lc"
    using a c by (simp_all add: la_def lc_def bitlen_alt_def)
  have "2 ^ nat (la - 1) \<le> a" "a < 2 ^ nat la" "2 ^ nat (lc - 1) \<le> c" "c < 2 ^ nat lc"
    using bitlen_bounds [OF a] bitlen_bounds [OF c] by (simp_all add: la_def lc_def)
  then have "(of_int (2 ^ nat (la - 1)) :: rat) \<le> of_int a" "(of_int a :: rat) < of_int (2 ^ nat la)"
    "(of_int (2 ^ nat (lc - 1)) :: rat) \<le> of_int c" "(of_int c :: rat) < of_int (2 ^ nat lc)"
    by (simp_all only: of_int_le_iff of_int_less_iff)
  then have ba: "(2::rat) powi (la - 1) \<le> of_int a" "(of_int a :: rat) < 2 powi la"
    and bc: "(2::rat) powi (lc - 1) \<le> of_int c" "(of_int c :: rat) < 2 powi lc"
    using la lc by (simp_all add: power_int_def)
  have up: "x < 2 powi (la - lc + 1)"
  proof -
    have "of_int a / of_int c < (2::rat) powi la / 2 powi (lc - 1)"
      using ba bc a by (intro frac_less) simp_all
    also have "\<dots> = 2 powi (la - (lc - 1))"
      by (simp add: power_int_diff)
    finally show ?thesis
      unfolding x by (simp add: algebra_simps)
  qed
  have lo: "2 powi (la - lc - 1) < x"
  proof -
    have "(2::rat) powi (la - 1) / 2 powi lc < of_int a / of_int c"
      using ba bc c by (intro frac_less2) simp_all
    moreover have "(2::rat) powi (la - 1) / 2 powi lc = 2 powi (la - 1 - lc)"
      by (simp add: power_int_diff)
    ultimately show ?thesis
      unfolding x by (simp add: algebra_simps)
  qed
  have il: "ilog2 x = (if 2 powi (la - lc) \<le> x then la - lc else la - lc - 1)"
    by (simp add: ilog2_def q la_def lc_def Let_def)
  show ?thesis
  proof (cases "2 powi (la - lc) \<le> x")
    case True
    then show ?thesis using up il by simp
  next
    case False
    then show ?thesis using lo il by simp
  qed
qed

lemma ilog2_mono:
  assumes "0 < x" "x \<le> y"
  shows "ilog2 x \<le> ilog2 y"
proof (rule ccontr)
  assume "\<not> ilog2 x \<le> ilog2 y"
  then have "ilog2 y + 1 \<le> ilog2 x"
    by simp
  then have "(2::rat) powi (ilog2 y + 1) \<le> 2 powi (ilog2 x)"
    by (intro power_int_increasing) simp_all
  also have "\<dots> \<le> x"
    using ilog2_bounds [OF assms(1)] by simp
  also have "x \<le> y"
    by (rule assms(2))
  also have "y < 2 powi (ilog2 y + 1)"
    using ilog2_bounds [of y] assms by simp
  finally show False
    by simp
qed


lemma pow2_mult: "(2::rat) powi m * 2 powi n = 2 powi (m + n)"
  by (simp add: power_int_add)

lemma pow2_divide: "(2::rat) powi m / 2 powi n = 2 powi (m - n)"
  by (simp add: power_int_diff)

lemma pow2_53: "(of_int (2 ^ 53) :: rat) * 2 powi (e - 52) = 2 powi (e + 1)"
proof -
  have "(of_int (2 ^ 53) :: rat) = 2 powi 53"
    by simp
  then have "(of_int (2 ^ 53) :: rat) * 2 powi (e - 52) = 2 powi 53 * 2 powi (e - 52)"
    by (simp only:)
  also have "\<dots> = 2 powi (53 + (e - 52))"
    by (rule pow2_mult)
  also have "53 + (e - 52) = e + 1"
    by simp
  finally show ?thesis .
qed

lemma pow2_52: "(of_int (2 ^ 52) :: rat) * 2 powi (e - 52) = 2 powi e"
proof -
  have "(of_int (2 ^ 52) :: rat) = 2 powi 52"
    by simp
  then have "(of_int (2 ^ 52) :: rat) * 2 powi (e - 52) = 2 powi 52 * 2 powi (e - 52)"
    by (simp only:)
  also have "\<dots> = 2 powi (52 + (e - 52))"
    by (rule pow2_mult)
  also have "52 + (e - 52) = e"
    by simp
  finally show ?thesis .
qed

lemma to_double_nonneg:
  assumes "0 \<le> x"
  shows "0 \<le> to_double x"
proof -
  have "0 \<le> round_half_even (x / 2 powi (max (ilog2 \<bar>x\<bar>) (- 1022) - 52))"
    using round_half_even_mono [of 0 "x / 2 powi (max (ilog2 \<bar>x\<bar>) (- 1022) - 52)"] assms
    by (simp add: round_half_even_of_int [of 0, simplified])
  then show ?thesis
    by (simp add: to_double_def Let_def)
qed

lemma to_double_mono_pos:
  assumes "0 < x" "x \<le> y"
  shows "to_double x \<le> to_double y"
proof -
  define ex where "ex = max (ilog2 x) (- 1022)"
  define ey where "ey = max (ilog2 y) (- 1022)"
  have y: "0 < y"
    using assms by simp
  have tx: "to_double x = of_int (round_half_even (x / 2 powi (ex - 52))) * 2 powi (ex - 52)"
    using assms(1) by (simp add: to_double_def ex_def Let_def)
  have ty: "to_double y = of_int (round_half_even (y / 2 powi (ey - 52))) * 2 powi (ey - 52)"
    using y by (simp add: to_double_def ey_def Let_def)
  have le: "ex \<le> ey"
    using ilog2_mono [OF assms] by (simp add: ex_def ey_def)
  show ?thesis
  proof (cases "ex = ey")
    case True
    have "x / 2 powi (ey - 52) \<le> y / 2 powi (ey - 52)"
      using assms(2) by (simp add: divide_right_mono)
    then have "round_half_even (x / 2 powi (ey - 52)) \<le> round_half_even (y / 2 powi (ey - 52))"
      by (rule round_half_even_mono)
    then show ?thesis
      unfolding tx ty True by (simp add: mult_right_mono)
  next
    case False
    with le have lt: "ex + 1 \<le> ey"
      by simp
    then have ey: "ey = ilog2 y"
      by (auto simp: ex_def ey_def max_def split: if_splits)
    have "x < 2 powi (ilog2 x + 1)"
      using ilog2_bounds [OF assms(1)] by simp
    also have "\<dots> \<le> 2 powi (ex + 1)"
      by (intro power_int_increasing) (simp_all add: ex_def)
    finally have "x / 2 powi (ex - 52) \<le> 2 powi (ex + 1) / 2 powi (ex - 52)"
      by (simp add: divide_right_mono)
    also have "\<dots> = 2 powi (ex + 1 - (ex - 52))"
      by (rule pow2_divide)
    also have "\<dots> = of_int (2 ^ 53)"
      by simp
    finally have "round_half_even (x / 2 powi (ex - 52)) \<le> round_half_even (of_int (2 ^ 53))"
      by (rule round_half_even_mono)
    then have "round_half_even (x / 2 powi (ex - 52)) \<le> 2 ^ 53"
      by (simp only: round_half_even_of_int)
    then have "(of_int (round_half_even (x / 2 powi (ex - 52))) :: rat) \<le> of_int (2 ^ 53)"
      by (simp only: of_int_le_iff)
    then have "to_double x \<le> of_int (2 ^ 53) * 2 powi (ex - 52)"
      unfolding tx by (simp add: mult_right_mono)
    also have "\<dots> = 2 powi (ex + 1)"
      by (rule pow2_53)
    also have "\<dots> \<le> 2 powi ey"
      using lt by (intro power_int_increasing) simp_all
    finally have upper: "to_double x \<le> 2 powi ey" .
    have "2 powi ey \<le> y"
      using ilog2_bounds [OF y] by (simp add: ey)
    then have "2 powi ey / 2 powi (ey - 52) \<le> y / 2 powi (ey - 52)"
      by (simp add: divide_right_mono)
    moreover have "(2::rat) powi ey / 2 powi (ey - 52) = 2 powi (ey - (ey - 52))"
      by (rule pow2_divide)
    moreover have "(2::rat) powi (ey - (ey - 52)) = of_int (2 ^ 52)"
      by simp
    ultimately have "of_int (2 ^ 52) \<le> y / 2 powi (ey - 52)"
      by (simp only:)
    then have "round_half_even (of_int (2 ^ 52)) \<le> round_half_even (y / 2 powi (ey - 52))"
      by (rule round_half_even_mono)
    then have "2 ^ 52 \<le> round_half_even (y / 2 powi (ey - 52))"
      by (simp only: round_half_even_of_int)
    then have "(of_int (2 ^ 52) :: rat) \<le> of_int (round_half_even (y / 2 powi (ey - 52)))"
      by (simp only: of_int_le_iff)
    then have "of_int (2 ^ 52) * 2 powi (ey - 52) \<le> to_double y"
      unfolding ty by (simp add: mult_right_mono)
    moreover have "(of_int (2 ^ 52) :: rat) * 2 powi (ey - 52) = 2 powi ey"
      by (rule pow2_52)
    ultimately have "2 powi ey \<le> to_double y"
      by simp
    with upper show ?thesis
      by simp
  qed
qed

lemma to_double_mono:
  assumes "0 \<le> x" "x \<le> y"
  shows "to_double x \<le> to_double y"
proof (cases "x = 0")
  case True
  then show ?thesis
    using to_double_nonneg [of y] assms by (simp add: to_double_def)
next
  case False
  then show ?thesis
    using assms by (intro to_double_mono_pos) simp_all
qed

lemma to_double_0: "to_double 0 = 0"
  by (simp add: to_double_def)

lemma to_double_1: "to_double 1 = 1"
  by code_simp

lemma py_round_mono:
  assumes "0 \<le> x" "x \<le> y"
  shows "py_round x n \<le> py_round y n"
proof -
  have "round_half_even (x * 10 ^ n) \<le> round_half_even (y * 10 ^ n)"
    using assms by (intro round_half_even_mono mult_right_mono) simp_all
  moreover have "0 \<le> round_half_even (x * 10 ^ n)"
    using round_half_even_mono [of 0 "x * 10 ^ n"] assms
    by (simp add: round_half_even_of_int [of 0, simplified])
  ultimately show ?thesis
    unfolding py_round_def by (intro to_double_mono divide_right_mono) simp_all
qed

lemma py_round_0: "py_round 0 n = 0"
  by (simp add: py_round_def round_half_even_of_int [of 0, simplified] to_double_0)

lemma py_round_1: "py_round 1 n = 1"
proof -
  have "round_half_even (10 ^ n) = 10 ^ n"
    using round_half_even_of_int [of "10 ^ n"] by simp
  then show ?thesis
    by (simp add: py_round_def to_double_1)
qed

lemma py_truediv_mono:
  assumes "0 \<le> a" "a \<le> a'" "0 < c"
  shows "py_truediv a c \<le> py_truediv a' c"
  unfolding py_truediv_def using assms by (intro to_double_mono divide_right_mono) simp_all

lemma py_truediv_0: "py_truediv 0 c = 0"
  by (simp add: py_truediv_def to_double_0)

lemma py_truediv_self: "c \<noteq> 0 \<Longrightarrow> py_truediv c c = 1"
  by (simp add: py_truediv_def to_double_1)

section \<open>Properties of \<^verbatim>\<open>int\<close>\<close>

text \<open>
  A non-empty run of at most 4300 digits, with or without a minus sign before it, is an
  integer literal, and \<^verbatim>\<open>int\<close> returns its value in base 10. An error of \<^verbatim>\<open>int\<close>
  is a \<^verbatim>\<open>TypeError\<close> exactly when the argument is \<^verbatim>\<open>None\<close>.
\<close>

lemma is_digit_not_other:
  "is_digit c \<Longrightarrow> \<not> is_space c \<and> c \<noteq> CHR ''_'' \<and> c \<noteq> CHR ''+'' \<and> c \<noteq> CHR ''-''"
  by (auto simp: is_digit_def is_space_def)

lemma sign_not_space: "\<not> is_space CHR ''-''" "\<not> is_space CHR ''+''"
  by (simp_all add: is_space_def)

lemma grouped_digits: "ds \<noteq> [] \<Longrightarrow> list_all is_digit ds \<Longrightarrow> grouped ds"
proof (induction ds rule: grouped.induct)
  case 1
  then show ?case by simp
next
  case (2 c)
  then show ?case by simp
next
  case (3 c d cs)
  then show ?case
    using is_digit_not_other [of d] by simp
qed

lemma takeWhile_digits:
  "list_all is_digit ds \<Longrightarrow> takeWhile (\<lambda>c. is_digit c \<or> c = CHR ''_'') ds = ds"
  by (induction ds) simp_all

lemma dropWhile_digits:
  "list_all is_digit ds \<Longrightarrow> dropWhile (\<lambda>c. is_digit c \<or> c = CHR ''_'') ds = []"
  by (induction ds) simp_all

lemma filter_digits: "list_all is_digit ds \<Longrightarrow> filter is_digit ds = ds"
  by (induction ds) simp_all

lemma int_of_str_digits:
  assumes "ds \<noteq> []" "list_all is_digit ds" "length ds \<le> 4300"
  shows "int_of_str ds = Inr (int (decimal ds))"
proof -
  obtain c cs where ds: "ds = c # cs"
    using assms(1) by (cases ds) auto
  have c: "is_digit c"
    using assms(2) by (simp add: ds)
  have s1: "dropWhile is_space ds = ds"
    using is_digit_not_other [OF c] by (simp add: ds)
  have s2: "(if ds \<noteq> [] \<and> (hd ds = CHR ''+'' \<or> hd ds = CHR ''-'') then tl ds else ds) = ds"
    using is_digit_not_other [OF c] by (simp add: ds)
  have neg: "\<not> (ds \<noteq> [] \<and> hd ds = CHR ''-'')"
    using is_digit_not_other [OF c] by (simp add: ds)
  show ?thesis
    unfolding int_of_str_def Let_def s1 s2
    using neg assms
    by (simp add: takeWhile_digits dropWhile_digits filter_digits grouped_digits
          int_max_str_digits_def)
qed

lemma int_of_str_minus_digits:
  assumes "ds \<noteq> []" "list_all is_digit ds" "length ds \<le> 4300"
  shows "int_of_str (CHR ''-'' # ds) = Inr (- int (decimal ds))"
  unfolding int_of_str_def Let_def
  using assms
  by (simp add: sign_not_space takeWhile_digits dropWhile_digits filter_digits grouped_digits
        int_max_str_digits_def)

lemma int_of_str_too_many_digits:
  assumes "list_all is_digit ds" "4300 < length ds"
  shows "int_of_str ds = Inl (ValueError_int_digits (length ds))"
proof -
  obtain c cs where ds: "ds = c # cs"
    using assms(2) by (cases ds) auto
  have c: "is_digit c"
    using assms(1) by (simp add: ds)
  have ne: "ds \<noteq> []"
    by (simp add: ds)
  have s1: "dropWhile is_space ds = ds"
    using is_digit_not_other [OF c] by (simp add: ds)
  have s2: "(if ds \<noteq> [] \<and> (hd ds = CHR ''+'' \<or> hd ds = CHR ''-'') then tl ds else ds) = ds"
    using is_digit_not_other [OF c] by (simp add: ds)
  show ?thesis
    unfolding int_of_str_def Let_def s1 s2
    using assms ne
    by (simp add: takeWhile_digits dropWhile_digits filter_digits grouped_digits
          int_max_str_digits_def)
qed

lemma decimal_snoc: "decimal (ds @ [d]) = 10 * decimal ds + digit_value d"
  by (simp add: decimal_def)

lemma int_of_str_error:
  assumes "int_of_str s = Inl err"
  shows "err = ValueError_int_literal s
       \<or> (\<exists>n. 4300 < n \<and> n \<le> length s \<and> err = ValueError_int_digits n)"
proof -
  define s1 where "s1 = dropWhile is_space s"
  define s2 where
    "s2 = (if s1 \<noteq> [] \<and> (hd s1 = CHR ''+'' \<or> hd s1 = CHR ''-'') then tl s1 else s1)"
  define body where "body = takeWhile (\<lambda>c. is_digit c \<or> c = CHR ''_'') s2"
  define n where "n = length (filter is_digit body)"
  have "n \<le> length body"
    by (simp add: n_def)
  also have "\<dots> \<le> length s2"
    unfolding body_def by (rule length_takeWhile_le)
  also have "\<dots> \<le> length s1"
    by (simp add: s2_def)
  also have "\<dots> \<le> length s"
    unfolding s1_def by (rule length_dropWhile_le)
  finally have le: "n \<le> length s" .
  have "err = ValueError_int_literal s \<or> (4300 < n \<and> err = ValueError_int_digits n)"
    using assms
    unfolding int_of_str_def Let_def int_max_str_digits_def n_def body_def s2_def s1_def
    by (auto split: if_splits)
  then show ?thesis
    using le by blast
qed

lemma py_int_error:
  assumes "py_int x = Inl err"
  shows "(x = None \<and> err = TypeError_int_None)
       \<or> (\<exists>s. x = Some s \<and>
             (err = ValueError_int_literal s
              \<or> (\<exists>n. 4300 < n \<and> n \<le> length s \<and> err = ValueError_int_digits n)))"
proof (cases x)
  case None
  then show ?thesis using assms by simp
next
  case (Some s)
  then have "int_of_str s = Inl err"
    using assms by simp
  then show ?thesis
    using int_of_str_error [of s err] Some by simp
qed

lemma py_int_error_class:
  assumes "py_int x = Inl err"
  shows "class_of err \<noteq> ParseError_class \<and> err \<noteq> ValueError m
       \<and> (class_of err = TypeError_class \<longleftrightarrow> x = None)
       \<and> (class_of err = ValueError_class \<longleftrightarrow> x \<noteq> None)"
  using py_int_error [OF assms] by auto

section \<open>Properties of the two loops\<close>

lemma colors_loop_Inr:
  assumes "\<forall>e \<in> set es. \<forall>k \<in> {''r'', ''g'', ''b''}. \<exists>n. py_int (get e k) = Inr n"
  shows "colors_loop es colors =
           Inr (colors @ map (\<lambda>e. \<lparr>r = projr (py_int (get e ''r'')),
                                    g = projr (py_int (get e ''g'')),
                                    b = projr (py_int (get e ''b'')),
                                    name = get e ''name'', hex = get e ''hex''\<rparr>) es)"
  using assms
proof (induction es arbitrary: colors)
  case Nil
  then show ?case by simp
next
  case (Cons e es)
  from Cons.prems obtain rv gv bv where
    "py_int (get e ''r'') = Inr rv" "py_int (get e ''g'') = Inr gv" "py_int (get e ''b'') = Inr bv"
    by auto
  moreover have "\<forall>e \<in> set es. \<forall>k \<in> {''r'', ''g'', ''b''}. \<exists>n. py_int (get e k) = Inr n"
    using Cons.prems by simp
  ultimately show ?case
    using Cons.IH by simp
qed

lemma colors_loop_first_failure:
  assumes "\<forall>e \<in> set good. \<forall>k \<in> {''r'', ''g'', ''b''}. \<exists>n. py_int (get e k) = Inr n"
    and "\<exists>k \<in> {''r'', ''g'', ''b''}. \<exists>err. py_int (get bad k) = Inl err"
  shows "colors_loop (good @ bad # rest) colors =
           Inl (case py_int (get bad ''r'') of
                  Inl err \<Rightarrow> err
                | Inr rv \<Rightarrow>
               (case py_int (get bad ''g'') of
                  Inl err \<Rightarrow> err
                | Inr gv \<Rightarrow> projl (py_int (get bad ''b''))))"
  using assms(1)
proof (induction good arbitrary: colors)
  case Nil
  show ?case
    using assms(2) by (auto split: sum.splits)
next
  case (Cons e good)
  from Cons.prems obtain rv gv bv where
    "py_int (get e ''r'') = Inr rv" "py_int (get e ''g'') = Inr gv" "py_int (get e ''b'') = Inr bv"
    by auto
  moreover have "\<forall>e \<in> set good. \<forall>k \<in> {''r'', ''g'', ''b''}. \<exists>n. py_int (get e k) = Inr n"
    using Cons.prems by simp
  ultimately show ?case
    using Cons.IH by simp
qed

lemma first_failure_error:
  assumes "k \<in> {''r'', ''g'', ''b''}" "py_int (get bad k) = Inl err0"
  shows "\<exists>k' \<in> {''r'', ''g'', ''b''}.
           py_int (get bad k') =
             Inl (case py_int (get bad ''r'') of
                    Inl err \<Rightarrow> err
                  | Inr rv \<Rightarrow>
                 (case py_int (get bad ''g'') of
                    Inl err \<Rightarrow> err
                  | Inr gv \<Rightarrow> projl (py_int (get bad ''b''))))"
  using assms by (auto split: sum.splits)

lemma first_refused_attribute:
  assumes "k \<in> {''r'', ''g'', ''b''}" "py_int (get bad k) = Inl err0"
  shows "\<exists>k'. (k' = ''r''
              \<or> (k' = ''g'' \<and> (\<exists>n. py_int (get bad ''r'') = Inr n))
              \<or> (k' = ''b'' \<and> (\<exists>n. py_int (get bad ''r'') = Inr n)
                    \<and> (\<exists>n. py_int (get bad ''g'') = Inr n)))
            \<and> py_int (get bad k') =
                Inl (case py_int (get bad ''r'') of
                       Inl err \<Rightarrow> err
                     | Inr rv \<Rightarrow>
                    (case py_int (get bad ''g'') of
                       Inl err \<Rightarrow> err
                     | Inr gv \<Rightarrow> projl (py_int (get bad ''b''))))"
proof (cases "py_int (get bad ''r'')")
  case (Inl err)
  then show ?thesis
    by (intro exI [of _ "''r''"]) simp
next
  case r_ok: (Inr rv)
  show ?thesis
  proof (cases "py_int (get bad ''g'')")
    case (Inl err)
    then show ?thesis
      using r_ok by (intro exI [of _ "''g''"]) simp
  next
    case g_ok: (Inr gv)
    have "k = ''b''"
      using assms r_ok g_ok by auto
    then have "py_int (get bad ''b'') = Inl err0"
      using assms(2) by simp
    then show ?thesis
      using r_ok g_ok by (intro exI [of _ "''b''"]) simp
  qed
qed

lemma colors_loop_failure:
  assumes "e \<in> set es" "k \<in> {''r'', ''g'', ''b''}" "py_int (get e k) = Inl err0"
  shows "\<exists>good bad rest.
           es = good @ bad # rest
         \<and> (\<forall>e' \<in> set good. \<forall>k' \<in> {''r'', ''g'', ''b''}. \<exists>n. py_int (get e' k') = Inr n)
         \<and> (\<exists>k' \<in> {''r'', ''g'', ''b''}. \<exists>err. py_int (get bad k') = Inl err)
         \<and> colors_loop es colors =
             Inl (case py_int (get bad ''r'') of
                    Inl err \<Rightarrow> err
                  | Inr rv \<Rightarrow>
                 (case py_int (get bad ''g'') of
                    Inl err \<Rightarrow> err
                  | Inr gv \<Rightarrow> projl (py_int (get bad ''b''))))"
proof -
  let ?P = "\<lambda>e. \<exists>k \<in> {''r'', ''g'', ''b''}. \<exists>err. py_int (get e k) = Inl err"
  have "\<exists>e \<in> set es. ?P e"
    using assms by blast
  then obtain good bad rest where
    es: "es = good @ bad # rest" and bad: "?P bad" and good: "\<forall>e' \<in> set good. \<not> ?P e'"
    using split_list_first_prop [of es ?P] by blast
  have good': "\<forall>e' \<in> set good. \<forall>k' \<in> {''r'', ''g'', ''b''}. \<exists>n. py_int (get e' k') = Inr n"
  proof (intro ballI)
    fix e' k'
    assume "e' \<in> set good" "k' \<in> {''r'', ''g'', ''b''}"
    then have "\<not> (\<exists>err. py_int (get e' k') = Inl err)"
      using good by blast
    then show "\<exists>n. py_int (get e' k') = Inr n"
      by (cases "py_int (get e' k')") auto
  qed
  show ?thesis
    using es good' bad colors_loop_first_failure [OF good' bad, of rest colors] by blast
qed

lemma parse_coolors_xml_failure:
  assumes "fromstring xml_content = Inr root_elem"
    and "e \<in> set (findall root_elem ''color'')"
    and "k \<in> {''r'', ''g'', ''b''}"
    and "py_int (get e k) = Inl err0"
  shows "\<exists>bad k' err. bad \<in> set (findall root_elem ''color'') \<and> k' \<in> {''r'', ''g'', ''b''}
           \<and> py_int (get bad k') = Inl err
           \<and> parse_coolors_xml fromstring xml_content = Inl err"
proof -
  from colors_loop_failure [OF assms(2-4), of "[]"] obtain good bad rest where
    es: "findall root_elem ''color'' = good @ bad # rest"
    and bad: "\<exists>k' \<in> {''r'', ''g'', ''b''}. \<exists>err. py_int (get bad k') = Inl err"
    and loop: "colors_loop (findall root_elem ''color'') [] =
             Inl (case py_int (get bad ''r'') of
                    Inl err \<Rightarrow> err
                  | Inr rv \<Rightarrow>
                 (case py_int (get bad ''g'') of
                    Inl err \<Rightarrow> err
                  | Inr gv \<Rightarrow> projl (py_int (get bad ''b''))))"
    by blast
  from bad obtain k1 e1 where k1: "k1 \<in> {''r'', ''g'', ''b''}" "py_int (get bad k1) = Inl e1"
    by blast
  from first_failure_error [OF k1] obtain k' where
    "k' \<in> {''r'', ''g'', ''b''}"
    "py_int (get bad k') =
       Inl (case py_int (get bad ''r'') of
              Inl err \<Rightarrow> err
            | Inr rv \<Rightarrow>
           (case py_int (get bad ''g'') of
              Inl err \<Rightarrow> err
            | Inr gv \<Rightarrow> projl (py_int (get bad ''b''))))"
    by blast
  moreover have "bad \<in> set (findall root_elem ''color'')"
    by (simp add: es)
  moreover have "parse_coolors_xml fromstring xml_content =
       Inl (case py_int (get bad ''r'') of
              Inl err \<Rightarrow> err
            | Inr rv \<Rightarrow>
           (case py_int (get bad ''g'') of
              Inl err \<Rightarrow> err
            | Inr gv \<Rightarrow> projl (py_int (get bad ''b''))))"
    using loop by (simp add: parse_coolors_xml_def assms(1))
  ultimately show ?thesis
    by blast
qed

lemma stops_loop_color:
  "map color (stops_loop n i cs acc) = map color acc @ map (\<lambda>c. \<lparr>r = r c, g = g c, b = b c\<rparr>) cs"
  by (induction cs arbitrary: i acc) (simp_all add: Let_def)

lemma stops_loop_position:
  "map position (stops_loop n i cs acc) =
     map position acc @
     map (\<lambda>j. py_round (if 1 < n then py_truediv (int j) (int n - 1) else 0) 4) [i..<i + length cs]"
proof (induction cs arbitrary: i acc)
  case Nil
  show ?case by simp
next
  case (Cons c cs)
  have "[i..<i + length (c # cs)] = i # [Suc i..<Suc i + length cs]"
    by (subst upt_rec) simp
  then show ?case
    using Cons.IH [of "Suc i"] by (simp add: Let_def)
qed

lemma create_colormap_json_Inr:
  "colors \<noteq> [] \<Longrightarrow>
   create_colormap_json colors name_arg =
     Inr \<lparr>cm_name =
            (case name_arg of
               None \<Rightarrow>
                 if 2 \<le> length colors
                 then Some (py_format (name (hd colors)) @ '' '' @ py_format (name (last colors)))
                 else name (hd colors)
             | Some n \<Rightarrow> Some n),
          stops = stops_loop (length colors) 0 colors []\<rparr>"
  by (simp add: create_colormap_json_def Let_def)

lemma position_mono:
  assumes "i \<le> j"
  shows "py_round (if 1 < n then py_truediv (int i) (int n - 1) else 0) 4
           \<le> py_round (if 1 < n then py_truediv (int j) (int n - 1) else 0) 4"
proof (cases "1 < n")
  case True
  have "py_truediv (int i) (int n - 1) \<le> py_truediv (int j) (int n - 1)"
    using assms True by (intro py_truediv_mono) simp_all
  moreover have "0 \<le> py_truediv (int i) (int n - 1)"
    unfolding py_truediv_def using True by (intro to_double_nonneg) simp
  ultimately show ?thesis
    using True by (simp add: py_round_mono)
next
  case False
  then show ?thesis by simp
qed

text \<open>The two divisions and roundings of a palette of four colors, evaluated.\<close>

lemma py_truediv_1_3: "py_truediv 1 3 = 6004799503160661 / 18014398509481984"
  by code_simp

lemma py_truediv_2_3: "py_truediv 2 3 = 6004799503160661 / 9007199254740992"
  by code_simp

lemma py_round_1_3: "py_round (6004799503160661 / 18014398509481984) 4 = 6004199023210345 / 18014398509481984"
  by code_simp

lemma py_round_2_3: "py_round (6004799503160661 / 9007199254740992) 4 = 6005099743135819 / 9007199254740992"
  by code_simp

text \<open>The conversions, the division and the rounding of the palette of claim C1, evaluated.\<close>

lemma py_truediv_1_2: "py_truediv 1 2 = 1 / 2"
  by code_simp

lemma py_round_1_2: "py_round (1 / 2) 4 = 1 / 2"
  by code_simp

lemma int_of_str_255: "int_of_str ''255'' = Inr 255"
  by code_simp

lemma int_of_str_0: "int_of_str ''0'' = Inr 0"
  by code_simp

text \<open>\<^verbatim>\<open>int\<close> on the attribute texts of the examples below, evaluated.\<close>

lemma int_of_str_300: "int_of_str ''300'' = Inr 300"
  by code_simp

lemma int_of_str_minus_1: "int_of_str ''-1'' = Inr (- 1)"
  by code_simp

lemma int_of_str_256: "int_of_str ''256'' = Inr 256"
  by code_simp

lemma int_of_str_spaced_12: "int_of_str '' 12 '' = Inr 12"
  by code_simp

lemma int_of_str_1_0: "int_of_str ''1_0'' = Inr 10"
  by code_simp

lemma int_of_str_blue: "int_of_str ''blue'' = Inl (ValueError_int_literal ''blue'')"
  by code_simp

lemma int_of_str_1: "int_of_str ''1'' = Inr 1"
  by code_simp

lemma int_of_str_2: "int_of_str ''2'' = Inr 2"
  by code_simp

lemma int_of_str_3: "int_of_str ''3'' = Inr 3"
  by code_simp

lemma int_of_str_x: "int_of_str ''x'' = Inl (ValueError_int_literal ''x'')"
  by code_simp

lemma int_of_str_12_5: "int_of_str ''12.5'' = Inl (ValueError_int_literal ''12.5'')"
  by code_simp

section \<open>The claims about \<^verbatim>\<open>create_colormap_json\<close>\<close>

text \<open>
  Claim C2. For every non-empty list of \<open>N\<close> color records the builder returns a
  colormap whose stop \<open>i\<close> has the position \<^verbatim>\<open>round(i / (N - 1), 4)\<close> when \<open>N > 1\<close> and
  \<^verbatim>\<open>round(0.0, 4)\<close> when \<open>N = 1\<close>, computed in binary64 arithmetic. These positions are
  non-decreasing in \<open>i\<close>; for \<open>N \<ge> 2\<close> the first is exactly \<open>0.0\<close> and the last is
  exactly \<open>1.0\<close>; for \<open>N = 1\<close> the only position is exactly \<open>0.0\<close>.
\<close>

theorem C2_positions:
  assumes "colors \<noteq> []"
  shows "\<exists>cm. create_colormap_json colors name_arg = Inr cm
           \<and> map position (stops cm) =
               map (\<lambda>i. py_round (if 1 < length colors
                                    then py_truediv (int i) (int (length colors) - 1) else 0) 4)
                 [0..<length colors]
           \<and> sorted (map position (stops cm))
           \<and> (2 \<le> length colors \<longrightarrow>
                 position (hd (stops cm)) = 0 \<and> position (last (stops cm)) = 1)
           \<and> (length colors = 1 \<longrightarrow> map position (stops cm) = [0])"
proof -
  define n where "n = length colors"
  define f where "f = (\<lambda>i. py_round (if 1 < n then py_truediv (int i) (int n - 1) else 0) 4)"
  define cm where "cm = \<lparr>cm_name =
            (case name_arg of
               None \<Rightarrow>
                 if 2 \<le> length colors
                 then Some (py_format (name (hd colors)) @ '' '' @ py_format (name (last colors)))
                 else name (hd colors)
             | Some n \<Rightarrow> Some n),
          stops = stops_loop (length colors) 0 colors []\<rparr>"
  have n: "0 < n"
    using assms by (simp add: n_def)
  have eq: "create_colormap_json colors name_arg = Inr cm"
    unfolding cm_def using assms by (rule create_colormap_json_Inr)
  have pos: "map position (stops cm) = map f [0..<n]"
    by (simp add: cm_def stops_loop_position f_def n_def)
  have srt: "sorted (map f [0..<n])"
    unfolding sorted_iff_nth_mono
  proof (intro allI impI)
    fix i j
    assume "i \<le> j" "j < length (map f [0..<n])"
    moreover from this have "f i \<le> f j"
      unfolding f_def by (intro position_mono)
    ultimately show "map f [0..<n] ! i \<le> map f [0..<n] ! j"
      by simp
  qed
  have ne: "stops cm \<noteq> []"
    using arg_cong [OF pos, of length] n by auto
  have f0: "f 0 = 0"
    by (simp add: f_def py_truediv_0 py_round_0)
  have fl: "f (n - 1) = 1" if "2 \<le> n"
  proof -
    have "int (n - 1) = int n - 1"
      using that by simp
    then show ?thesis
      using that by (simp add: f_def py_truediv_self py_round_1)
  qed
  have h: "position (hd (stops cm)) = 0"
  proof -
    have "position (hd (stops cm)) = hd (map position (stops cm))"
      using ne by (simp add: hd_map)
    also have "\<dots> = f 0"
      unfolding pos using n by (simp add: hd_map upt_conv_Cons)
    finally show ?thesis
      using f0 by simp
  qed
  have l: "position (last (stops cm)) = 1" if "2 \<le> n"
  proof -
    have "position (last (stops cm)) = last (map position (stops cm))"
      using ne by (simp add: last_map)
    also have "\<dots> = f (n - 1)"
      unfolding pos using n by (simp add: last_map)
    finally show ?thesis
      using fl [OF that] by simp
  qed
  have one: "map position (stops cm) = [0]" if "n = 1"
    unfolding pos using that f0 by simp
  show ?thesis
    using eq pos srt h l one unfolding f_def n_def by (intro exI [of _ cm]) simp
qed

theorem C2_positions_witness:
  "\<exists>cm. create_colormap_json
          [\<lparr>r = 1, g = 2, b = 3, name = None, hex = None\<rparr>,
           \<lparr>r = 4, g = 5, b = 6, name = None, hex = None\<rparr>,
           \<lparr>r = 7, g = 8, b = 9, name = None, hex = None\<rparr>,
           \<lparr>r = 7, g = 8, b = 9, name = None, hex = None\<rparr>] None = Inr cm
        \<and> map position (stops cm) =
            [0, 6004199023210345 / 18014398509481984, 6005099743135819 / 9007199254740992, 1]
        \<and> sorted (map position (stops cm))
        \<and> position (hd (stops cm)) = 0 \<and> position (last (stops cm)) = 1"
proof -
  let ?cs = "[\<lparr>r = 1, g = 2, b = 3, name = None, hex = None\<rparr>,
           \<lparr>r = 4, g = 5, b = 6, name = None, hex = None\<rparr>,
           \<lparr>r = 7, g = 8, b = 9, name = None, hex = None\<rparr>,
           \<lparr>r = 7, g = 8, b = 9, name = None, hex = None\<rparr>]"
  have ne: "?cs \<noteq> []"
    by simp
  have upt: "[0..<length ?cs] = [0, 1, 2, 3]"
    by (simp add: upt_rec)
  have ev: "map (\<lambda>i. py_round (if 1 < length ?cs
                                then py_truediv (int i) (int (length ?cs) - 1) else 0) 4)
              [0..<length ?cs] =
            [0, 6004199023210345 / 18014398509481984, 6005099743135819 / 9007199254740992, 1]"
    unfolding upt
    by (simp add: py_truediv_0 py_round_0 py_truediv_1_3 py_round_1_3 py_truediv_2_3 py_round_2_3
          py_truediv_self py_round_1)
  from C2_positions [OF ne, of None] obtain cm where
    "create_colormap_json ?cs None = Inr cm"
    "map position (stops cm) =
       map (\<lambda>i. py_round (if 1 < length ?cs
                           then py_truediv (int i) (int (length ?cs) - 1) else 0) 4)
         [0..<length ?cs]"
    "sorted (map position (stops cm))"
    "2 \<le> length ?cs \<longrightarrow> position (hd (stops cm)) = 0 \<and> position (last (stops cm)) = 1"
    by blast
  then show ?thesis
    unfolding ev by (intro exI [of _ cm]) simp
qed

text \<open>
  Claim C3. For every non-empty list of \<open>N\<close> color records the builder returns a
  colormap with \<open>N\<close> stops, and the color of stop \<open>i\<close> is the triple
  \<open>(r, g, b)\<close> of record \<open>i\<close>, unchanged: the stops are in the order of the input,
  nothing is clamped, sorted or removed, also when records repeat a color.
\<close>

theorem C3_colors_in_order:
  assumes "colors \<noteq> []"
  shows "\<exists>cm. create_colormap_json colors name_arg = Inr cm
           \<and> length (stops cm) = length colors
           \<and> (\<forall>i < length colors.
                 color (stops cm ! i) = \<lparr>r = r (colors ! i), g = g (colors ! i), b = b (colors ! i)\<rparr>)"
proof -
  let ?cm = "\<lparr>cm_name =
            (case name_arg of
               None \<Rightarrow>
                 if 2 \<le> length colors
                 then Some (py_format (name (hd colors)) @ '' '' @ py_format (name (last colors)))
                 else name (hd colors)
             | Some n \<Rightarrow> Some n),
          stops = stops_loop (length colors) 0 colors []\<rparr>"
  have eq: "create_colormap_json colors name_arg = Inr ?cm"
    using assms by (rule create_colormap_json_Inr)
  have m: "map color (stops ?cm) = map (\<lambda>c. \<lparr>r = r c, g = g c, b = b c\<rparr>) colors"
    by (simp add: stops_loop_color)
  have len: "length (stops ?cm) = length colors"
    using arg_cong [OF m, of length] by simp
  have "color (stops ?cm ! i) = \<lparr>r = r (colors ! i), g = g (colors ! i), b = b (colors ! i)\<rparr>"
    if "i < length colors" for i
  proof -
    have "color (stops ?cm ! i) = map color (stops ?cm) ! i"
      using that len by simp
    also have "\<dots> = \<lparr>r = r (colors ! i), g = g (colors ! i), b = b (colors ! i)\<rparr>"
      unfolding m using that by simp
    finally show ?thesis .
  qed
  with eq len show ?thesis by blast
qed

theorem C3_colors_in_order_witness:
  "\<exists>cm. create_colormap_json
          [\<lparr>r = 300, g = - 1, b = 0, name = Some ''A'', hex = None\<rparr>,
           \<lparr>r = 10, g = 20, b = 30, name = Some ''B'', hex = None\<rparr>,
           \<lparr>r = 300, g = - 1, b = 0, name = Some ''A'', hex = None\<rparr>] None = Inr cm
        \<and> length (stops cm) = 3
        \<and> color (stops cm ! 0) = \<lparr>r = 300, g = - 1, b = 0\<rparr>
        \<and> color (stops cm ! 1) = \<lparr>r = 10, g = 20, b = 30\<rparr>
        \<and> color (stops cm ! 2) = \<lparr>r = 300, g = - 1, b = 0\<rparr>"
proof -
  let ?cs = "[\<lparr>r = 300, g = - 1, b = 0, name = Some ''A'', hex = None\<rparr>,
           \<lparr>r = 10, g = 20, b = 30, name = Some ''B'', hex = None\<rparr>,
           \<lparr>r = 300, g = - 1, b = 0, name = Some ''A'', hex = None\<rparr>]"
  have ne: "?cs \<noteq> []"
    by simp
  from C3_colors_in_order [OF ne, of None] obtain cm where
    cm: "create_colormap_json ?cs None = Inr cm" "length (stops cm) = length ?cs"
    and at: "\<And>i. i < length ?cs \<Longrightarrow>
      color (stops cm ! i) = \<lparr>r = r (?cs ! i), g = g (?cs ! i), b = b (?cs ! i)\<rparr>"
    by blast
  have "color (stops cm ! 0) = \<lparr>r = 300, g = - 1, b = 0\<rparr>"
    using at [of 0] by simp
  moreover have "color (stops cm ! 1) = \<lparr>r = 10, g = 20, b = 30\<rparr>"
    using at [of 1] by simp
  moreover have "color (stops cm ! 2) = \<lparr>r = 300, g = - 1, b = 0\<rparr>"
    using at [of 2] by simp
  ultimately show ?thesis
    using cm by (intro exI [of _ cm]) simp
qed

text \<open>
  Claim C5. For every non-empty list of color records: with a name given by the caller,
  the colormap's name is that name, whatever the colors are called; with no name given and
  exactly one color, it is that color's \<open>name\<close> field as it is, also when it is empty or
  \<^verbatim>\<open>None\<close>; with no name given and two or more colors, it is the first color's name, one
  space, and the last color's name, each formatted as an f-string formats it, and the
  colors in between contribute nothing.
\<close>

theorem C5_name_derivation:
  "(colors \<noteq> [] \<longrightarrow>
      (\<exists>cm. create_colormap_json colors (Some n) = Inr cm \<and> cm_name cm = Some n))
   \<and> (length colors = 1 \<longrightarrow>
      (\<exists>cm. create_colormap_json colors None = Inr cm \<and> cm_name cm = name (hd colors)))
   \<and> (2 \<le> length colors \<longrightarrow>
      (\<exists>cm. create_colormap_json colors None = Inr cm
         \<and> cm_name cm = Some (py_format (name (hd colors)) @ '' '' @ py_format (name (last colors)))))
   \<and> (\<exists>cm. create_colormap_json (c0 # mid @ [cN]) None = Inr cm
         \<and> cm_name cm = Some (py_format (name c0) @ '' '' @ py_format (name cN))
         \<and> (\<forall>a z. name c0 = Some a \<and> name cN = Some z \<longrightarrow> cm_name cm = Some (a @ '' '' @ z)))"
proof (intro conjI impI)
  assume "colors \<noteq> []"
  then show "\<exists>cm. create_colormap_json colors (Some n) = Inr cm \<and> cm_name cm = Some n"
    by (simp add: create_colormap_json_Inr)
next
  assume "length colors = 1"
  then have "colors \<noteq> []" "\<not> 2 \<le> length colors"
    by auto
  then show "\<exists>cm. create_colormap_json colors None = Inr cm \<and> cm_name cm = name (hd colors)"
    by (simp add: create_colormap_json_Inr)
next
  assume l: "2 \<le> length colors"
  then have "colors \<noteq> []"
    by auto
  then show "\<exists>cm. create_colormap_json colors None = Inr cm
         \<and> cm_name cm = Some (py_format (name (hd colors)) @ '' '' @ py_format (name (last colors)))"
    using l by (simp add: create_colormap_json_Inr)
next
  have "c0 # mid @ [cN] \<noteq> []" "2 \<le> length (c0 # mid @ [cN])"
    by simp_all
  then show "\<exists>cm. create_colormap_json (c0 # mid @ [cN]) None = Inr cm
         \<and> cm_name cm = Some (py_format (name c0) @ '' '' @ py_format (name cN))
         \<and> (\<forall>a z. name c0 = Some a \<and> name cN = Some z \<longrightarrow> cm_name cm = Some (a @ '' '' @ z))"
    by (simp add: create_colormap_json_Inr)
qed

theorem C5_name_derivation_witness:
  "(\<exists>cm. create_colormap_json
           [\<lparr>r = 255, g = 0, b = 0, name = Some ''Red'', hex = None\<rparr>,
            \<lparr>r = 0, g = 255, b = 0, name = Some ''Green'', hex = None\<rparr>,
            \<lparr>r = 0, g = 0, b = 255, name = Some ''Blue'', hex = None\<rparr>] (Some ''MyPalette'') = Inr cm
         \<and> cm_name cm = Some ''MyPalette'')
   \<and> (\<exists>cm. create_colormap_json
           [\<lparr>r = 255, g = 0, b = 0, name = Some ''Red'', hex = None\<rparr>,
            \<lparr>r = 0, g = 255, b = 0, name = Some ''Green'', hex = None\<rparr>,
            \<lparr>r = 0, g = 0, b = 255, name = Some ''Blue'', hex = None\<rparr>] None = Inr cm
         \<and> cm_name cm = Some ''Red Blue'')"
  using C5_name_derivation [of "[\<lparr>r = 255, g = 0, b = 0, name = Some ''Red'', hex = None\<rparr>,
            \<lparr>r = 0, g = 255, b = 0, name = Some ''Green'', hex = None\<rparr>,
            \<lparr>r = 0, g = 0, b = 255, name = Some ''Blue'', hex = None\<rparr>]" "''MyPalette''"]
  by simp

text \<open>
  Claim C10. With no name given and two or more colors, a first or last color whose
  \<open>name\<close> is \<^verbatim>\<open>None\<close> puts the text \<^verbatim>\<open>None\<close> in its place of the derived name, as
  in \<^verbatim>\<open>None Blue\<close>; with exactly one color whose \<open>name\<close> is \<^verbatim>\<open>None\<close>, the colormap's
  name is \<^verbatim>\<open>None\<close> itself and not the text.
\<close>

theorem C10_none_in_name:
  "(name c0 = None \<longrightarrow>
      (\<exists>cm. create_colormap_json (c0 # mid @ [cN]) None = Inr cm
         \<and> cm_name cm = Some (''None '' @ py_format (name cN))))
   \<and> (name cN = None \<longrightarrow>
      (\<exists>cm. create_colormap_json (c0 # mid @ [cN]) None = Inr cm
         \<and> cm_name cm = Some (py_format (name c0) @ '' None'')))
   \<and> (name c = None \<longrightarrow>
      (\<exists>cm. create_colormap_json [c] None = Inr cm \<and> cm_name cm = None
         \<and> cm_name cm \<noteq> Some ''None''))"
proof -
  have "c0 # mid @ [cN] \<noteq> []" "2 \<le> length (c0 # mid @ [cN])" "[c] \<noteq> []" "\<not> 2 \<le> length [c]"
    by simp_all
  then show ?thesis
    by (simp add: create_colormap_json_Inr)
qed

theorem C10_none_in_name_witness:
  "(\<exists>cm. create_colormap_json
           [\<lparr>r = 255, g = 0, b = 0, name = None, hex = None\<rparr>,
            \<lparr>r = 0, g = 255, b = 0, name = Some ''Green'', hex = None\<rparr>,
            \<lparr>r = 0, g = 0, b = 255, name = Some ''Blue'', hex = None\<rparr>] None = Inr cm
         \<and> cm_name cm = Some ''None Blue'')
   \<and> (\<exists>cm. create_colormap_json
           [\<lparr>r = 255, g = 0, b = 0, name = None, hex = None\<rparr>] None = Inr cm
         \<and> cm_name cm = None \<and> cm_name cm \<noteq> Some ''None'')"
  using C10_none_in_name [of "\<lparr>r = 255, g = 0, b = 0, name = None, hex = None\<rparr>"
      "[\<lparr>r = 0, g = 255, b = 0, name = Some ''Green'', hex = None\<rparr>]"
      "\<lparr>r = 0, g = 0, b = 255, name = Some ''Blue'', hex = None\<rparr>"
      "\<lparr>r = 255, g = 0, b = 0, name = None, hex = None\<rparr>"]
  by simp

section \<open>The claims about the pipeline\<close>

text \<open>
  Claim C1. For the document whose root has exactly the three color elements
  \<^verbatim>\<open>A #FF0000 255 0 0\<close>, \<^verbatim>\<open>B #00FF00 0 255 0\<close> and \<^verbatim>\<open>C #0000FF 0 0 255\<close>, and no name
  given, the extractor returns the three color records, the builder returns on them the
  colormap named \<^verbatim>\<open>A C\<close> with the stops \<open>(0.0, (255, 0, 0))\<close>, \<open>(0.5, (0, 255, 0))\<close>
  and \<open>(1.0, (0, 0, 255))\<close>, and \<^verbatim>\<open>main\<close> dumps exactly this colormap.
\<close>

theorem C1_three_color_palette:
  assumes "fromstring xml_content =
     Inr (Element ''palette'' []
       [Element ''color'' [(''name'', ''A''), (''hex'', ''#FF0000''), (''r'', ''255''), (''g'', ''0''), (''b'', ''0'')] [],
        Element ''color'' [(''name'', ''B''), (''hex'', ''#00FF00''), (''r'', ''0''), (''g'', ''255''), (''b'', ''0'')] [],
        Element ''color'' [(''name'', ''C''), (''hex'', ''#0000FF''), (''r'', ''0''), (''g'', ''0''), (''b'', ''255'')] []])"
  shows "parse_coolors_xml fromstring xml_content =
           Inr [\<lparr>r = 255, g = 0, b = 0, name = Some ''A'', hex = Some ''#FF0000''\<rparr>,
                \<lparr>r = 0, g = 255, b = 0, name = Some ''B'', hex = Some ''#00FF00''\<rparr>,
                \<lparr>r = 0, g = 0, b = 255, name = Some ''C'', hex = Some ''#0000FF''\<rparr>]
       \<and> create_colormap_json
             [\<lparr>r = 255, g = 0, b = 0, name = Some ''A'', hex = Some ''#FF0000''\<rparr>,
              \<lparr>r = 0, g = 255, b = 0, name = Some ''B'', hex = Some ''#00FF00''\<rparr>,
              \<lparr>r = 0, g = 0, b = 255, name = Some ''C'', hex = Some ''#0000FF''\<rparr>] None =
           Inr \<lparr>cm_name = Some ''A C'',
                stops = [\<lparr>position = 0, color = \<lparr>r = 255, g = 0, b = 0\<rparr>\<rparr>,
                         \<lparr>position = 1 / 2, color = \<lparr>r = 0, g = 255, b = 0\<rparr>\<rparr>,
                         \<lparr>position = 1, color = \<lparr>r = 0, g = 0, b = 255\<rparr>\<rparr>]\<rparr>
       \<and> main fromstring xml_content None =
           Some \<lparr>cm_name = Some ''A C'',
                 stops = [\<lparr>position = 0, color = \<lparr>r = 255, g = 0, b = 0\<rparr>\<rparr>,
                          \<lparr>position = 1 / 2, color = \<lparr>r = 0, g = 255, b = 0\<rparr>\<rparr>,
                          \<lparr>position = 1, color = \<lparr>r = 0, g = 0, b = 255\<rparr>\<rparr>]\<rparr>"
proof -
  have p: "parse_coolors_xml fromstring xml_content =
           Inr [\<lparr>r = 255, g = 0, b = 0, name = Some ''A'', hex = Some ''#FF0000''\<rparr>,
                \<lparr>r = 0, g = 255, b = 0, name = Some ''B'', hex = Some ''#00FF00''\<rparr>,
                \<lparr>r = 0, g = 0, b = 255, name = Some ''C'', hex = Some ''#0000FF''\<rparr>]"
    by (simp add: parse_coolors_xml_def assms findall_def get_def int_of_str_255 int_of_str_0)
  have c: "create_colormap_json
             [\<lparr>r = 255, g = 0, b = 0, name = Some ''A'', hex = Some ''#FF0000''\<rparr>,
              \<lparr>r = 0, g = 255, b = 0, name = Some ''B'', hex = Some ''#00FF00''\<rparr>,
              \<lparr>r = 0, g = 0, b = 255, name = Some ''C'', hex = Some ''#0000FF''\<rparr>] None =
           Inr \<lparr>cm_name = Some ''A C'',
                stops = [\<lparr>position = 0, color = \<lparr>r = 255, g = 0, b = 0\<rparr>\<rparr>,
                         \<lparr>position = 1 / 2, color = \<lparr>r = 0, g = 255, b = 0\<rparr>\<rparr>,
                         \<lparr>position = 1, color = \<lparr>r = 0, g = 0, b = 255\<rparr>\<rparr>]\<rparr>"
    by (simp add: create_colormap_json_def py_truediv_0 py_round_0 py_truediv_1_2 py_round_1_2
          py_truediv_self py_round_1)
  show ?thesis
    using p c by (simp add: main_def)
qed

theorem C1_three_color_palette_witness:
  "main (\<lambda>s. Inr (Element ''palette'' []
       [Element ''color'' [(''name'', ''A''), (''hex'', ''#FF0000''), (''r'', ''255''), (''g'', ''0''), (''b'', ''0'')] [],
        Element ''color'' [(''name'', ''B''), (''hex'', ''#00FF00''), (''r'', ''0''), (''g'', ''255''), (''b'', ''0'')] [],
        Element ''color'' [(''name'', ''C''), (''hex'', ''#0000FF''), (''r'', ''0''), (''g'', ''0''), (''b'', ''255'')] []]))
     ''palette.xml'' None =
   Some \<lparr>cm_name = Some ''A C'',
         stops = [\<lparr>position = 0, color = \<lparr>r = 255, g = 0, b = 0\<rparr>\<rparr>,
                  \<lparr>position = 1 / 2, color = \<lparr>r = 0, g = 255, b = 0\<rparr>\<rparr>,
                  \<lparr>position = 1, color = \<lparr>r = 0, g = 0, b = 255\<rparr>\<rparr>]\<rparr>"
  using C1_three_color_palette [of "\<lambda>s. Inr (Element ''palette'' []
       [Element ''color'' [(''name'', ''A''), (''hex'', ''#FF0000''), (''r'', ''255''), (''g'', ''0''), (''b'', ''0'')] [],
        Element ''color'' [(''name'', ''B''), (''hex'', ''#00FF00''), (''r'', ''0''), (''g'', ''255''), (''b'', ''0'')] [],
        Element ''color'' [(''name'', ''C''), (''hex'', ''#0000FF''), (''r'', ''0''), (''g'', ''0''), (''b'', ''255'')] []])"
     "''palette.xml''"]
  by simp

section \<open>The claims about \<^verbatim>\<open>parse_coolors_xml\<close>\<close>

text \<open>
  Claim C4 says that the extractor produces one record for each color element of every
  well-formed document. Where \<^verbatim>\<open>int\<close> refuses an attribute it produces none: the
  document below is well-formed and has two color elements, the second with the text
  \<^verbatim>\<open>12.5\<close> as its \<open>r\<close>, and the extraction ends with the \<^verbatim>\<open>ValueError\<close> of that
  text.
\<close>

theorem C4_counterexample:
  "parse_coolors_xml
     (\<lambda>s. Inr (Element ''palette'' []
        [Element ''color'' [(''name'', ''Red''), (''hex'', ''#FF0000''), (''r'', ''255''), (''g'', ''0''), (''b'', ''0'')] [],
         Element ''color'' [(''name'', ''Half''), (''hex'', ''#0C0000''), (''r'', ''12.5''), (''g'', ''0''), (''b'', ''0'')] []]))
     ''palette.xml'' = Inl (ValueError_int_literal ''12.5'')"
  by (simp add: parse_coolors_xml_def findall_def get_def int_of_str_255 int_of_str_0
        int_of_str_12_5)

text \<open>
  Claim C4, amended. For every well-formed document, that is, whenever the parser returns a
  root element, in which \<^verbatim>\<open>int\<close> accepts the \<open>r\<close>, \<open>g\<close> and \<open>b\<close> attribute of every
  color element, the extractor returns one record for each direct child of the root whose
  tag is \<^verbatim>\<open>color\<close>, in document order, and nothing for any other element. The record's
  \<open>name\<close> and \<open>hex\<close> are the attributes as \<^verbatim>\<open>get\<close> returns them, \<^verbatim>\<open>None\<close> when the
  attribute is absent, and its \<open>r\<close>, \<open>g\<close>, \<open>b\<close> are what \<^verbatim>\<open>int\<close> returns on
  the attribute texts (base 10: see \<open>int_of_str_digits\<close> and \<open>decimal_snoc\<close>).
\<close>

theorem C4_extractor_records:
  assumes "fromstring xml_content = Inr root_elem"
    and "es = filter (\<lambda>e. tag e = ''color'') (children root_elem)"
    and "\<forall>e \<in> set es. \<forall>k \<in> {''r'', ''g'', ''b''}. \<exists>n. py_int (map_of (attrib e) k) = Inr n"
  shows "\<exists>colors. parse_coolors_xml fromstring xml_content = Inr colors
           \<and> length colors = length es
           \<and> (\<forall>i < length es.
                 name (colors ! i) = map_of (attrib (es ! i)) ''name''
               \<and> hex (colors ! i) = map_of (attrib (es ! i)) ''hex''
               \<and> py_int (map_of (attrib (es ! i)) ''r'') = Inr (r (colors ! i))
               \<and> py_int (map_of (attrib (es ! i)) ''g'') = Inr (g (colors ! i))
               \<and> py_int (map_of (attrib (es ! i)) ''b'') = Inr (b (colors ! i)))"
proof -
  let ?mk = "\<lambda>e. \<lparr>r = projr (py_int (get e ''r'')), g = projr (py_int (get e ''g'')),
                  b = projr (py_int (get e ''b'')),
                  name = get e ''name'', hex = get e ''hex''\<rparr>"
  have fa: "findall root_elem ''color'' = es"
    by (simp add: findall_def assms(2))
  have ok: "\<forall>e \<in> set es. \<forall>k \<in> {''r'', ''g'', ''b''}. \<exists>n. py_int (get e k) = Inr n"
    using assms(3) by (simp add: get_def)
  have eq: "parse_coolors_xml fromstring xml_content = Inr (map ?mk es)"
    using colors_loop_Inr [OF ok, of "[]"] by (simp add: parse_coolors_xml_def assms(1) fa)
  have "name (map ?mk es ! i) = map_of (attrib (es ! i)) ''name''
      \<and> hex (map ?mk es ! i) = map_of (attrib (es ! i)) ''hex''
      \<and> py_int (map_of (attrib (es ! i)) ''r'') = Inr (r (map ?mk es ! i))
      \<and> py_int (map_of (attrib (es ! i)) ''g'') = Inr (g (map ?mk es ! i))
      \<and> py_int (map_of (attrib (es ! i)) ''b'') = Inr (b (map ?mk es ! i))"
    if "i < length es" for i
  proof -
    have "es ! i \<in> set es"
      using that by simp
    then obtain rv gv bv where
      "py_int (get (es ! i) ''r'') = Inr rv" "py_int (get (es ! i) ''g'') = Inr gv"
      "py_int (get (es ! i) ''b'') = Inr bv"
      using ok by (metis insertI1 insertI2)
    then show ?thesis
      using that by (simp add: get_def)
  qed
  then show ?thesis
    using eq by (intro exI [of _ "map ?mk es"]) simp
qed

theorem C4_extractor_records_witness:
  "\<exists>colors.
     parse_coolors_xml
       (\<lambda>s. Inr (Element ''palette'' []
          [Element ''title'' [(''r'', ''blue'')] [],
           Element ''color'' [(''name'', ''A''), (''hex'', ''#zz''), (''r'', '' 12 ''), (''g'', ''1_0''), (''b'', ''0'')] [],
           Element ''group'' [] [Element ''color'' [(''r'', ''1''), (''g'', ''2''), (''b'', ''3'')] []],
           Element ''color'' [(''r'', ''300''), (''g'', ''-1''), (''b'', ''256'')] []]))
       ''palette.xml'' = Inr colors
   \<and> length colors = 2
   \<and> name (colors ! 0) = Some ''A'' \<and> hex (colors ! 0) = Some ''#zz''
   \<and> r (colors ! 0) = 12 \<and> g (colors ! 0) = 10 \<and> b (colors ! 0) = 0
   \<and> name (colors ! 1) = None \<and> hex (colors ! 1) = None
   \<and> r (colors ! 1) = 300 \<and> g (colors ! 1) = - 1 \<and> b (colors ! 1) = 256"
proof -
  let ?e0 = "Element ''color'' [(''name'', ''A''), (''hex'', ''#zz''), (''r'', '' 12 ''), (''g'', ''1_0''), (''b'', ''0'')] []"
  let ?e1 = "Element ''color'' [(''r'', ''300''), (''g'', ''-1''), (''b'', ''256'')] []"
  let ?root = "Element ''palette'' []
          [Element ''title'' [(''r'', ''blue'')] [],
           ?e0,
           Element ''group'' [] [Element ''color'' [(''r'', ''1''), (''g'', ''2''), (''b'', ''3'')] []],
           ?e1]"
  have es: "[?e0, ?e1] = filter (\<lambda>e. tag e = ''color'') (children ?root)"
    by simp
  have ok: "\<forall>e \<in> set [?e0, ?e1]. \<forall>k \<in> {''r'', ''g'', ''b''}. \<exists>n. py_int (map_of (attrib e) k) = Inr n"
    by (simp add: int_of_str_300 int_of_str_minus_1 int_of_str_256 int_of_str_spaced_12
          int_of_str_1_0 int_of_str_0)
  from C4_extractor_records [of "\<lambda>s. Inr ?root" "''palette.xml''" ?root "[?e0, ?e1]", OF refl es ok]
  obtain colors where
    p: "parse_coolors_xml (\<lambda>s. Inr ?root) ''palette.xml'' = Inr colors"
      "length colors = length [?e0, ?e1]"
    and at: "\<And>i. i < length [?e0, ?e1] \<Longrightarrow>
                 name (colors ! i) = map_of (attrib ([?e0, ?e1] ! i)) ''name''
               \<and> hex (colors ! i) = map_of (attrib ([?e0, ?e1] ! i)) ''hex''
               \<and> py_int (map_of (attrib ([?e0, ?e1] ! i)) ''r'') = Inr (r (colors ! i))
               \<and> py_int (map_of (attrib ([?e0, ?e1] ! i)) ''g'') = Inr (g (colors ! i))
               \<and> py_int (map_of (attrib ([?e0, ?e1] ! i)) ''b'') = Inr (b (colors ! i))"
    by blast
  have "name (colors ! 0) = Some ''A'' \<and> hex (colors ! 0) = Some ''#zz''
      \<and> r (colors ! 0) = 12 \<and> g (colors ! 0) = 10 \<and> b (colors ! 0) = 0"
    using at [of 0] by (simp add: int_of_str_spaced_12 int_of_str_1_0 int_of_str_0)
  moreover have "name (colors ! 1) = None \<and> hex (colors ! 1) = None
      \<and> r (colors ! 1) = 300 \<and> g (colors ! 1) = - 1 \<and> b (colors ! 1) = 256"
    using at [of 1] by (simp add: int_of_str_300 int_of_str_minus_1 int_of_str_256)
  ultimately show ?thesis
    using p by (intro exI [of _ colors]) simp
qed

text \<open>
  Claim C6 says that an \<open>r\<close>, \<open>g\<close> or \<open>b\<close> outside 0 to 255 makes extraction fail.
  The script has no range check: the document below, with \<open>r = 300\<close>, \<open>g = -1\<close> and
  \<open>b = 256\<close>, is extracted, and the record carries these values.
\<close>

theorem C6_counterexample:
  "parse_coolors_xml
     (\<lambda>s. Inr (Element ''palette'' []
        [Element ''color'' [(''name'', ''Hot''), (''hex'', ''#FF0000''), (''r'', ''300''), (''g'', ''-1''), (''b'', ''256'')] []]))
     ''palette.xml'' =
   Inr [\<lparr>r = 300, g = - 1, b = 256, name = Some ''Hot'', hex = Some ''#FF0000''\<rparr>]"
  by (simp add: parse_coolors_xml_def findall_def get_def int_of_str_300 int_of_str_minus_1
        int_of_str_256)

text \<open>
  Claim C6, amended. For every well-formed document in which the \<open>r\<close>, \<open>g\<close> and \<open>b\<close>
  text of every color element is a decimal literal (at most 4300 digits, with or without
  a minus sign before them), extraction succeeds, and every record carries the values of
  its three literals unchanged, whether or not they lie in 0 to 255: the extractor checks
  no range and clamps nothing.
\<close>

theorem C6_no_range_check:
  assumes "fromstring xml_content = Inr root_elem"
    and "\<forall>e \<in> set (findall root_elem ''color''). \<forall>k \<in> {''r'', ''g'', ''b''}.
           \<exists>ds. ds \<noteq> [] \<and> list_all is_digit ds \<and> length ds \<le> 4300
              \<and> (get e k = Some ds \<or> get e k = Some (CHR ''-'' # ds))"
  shows "parse_coolors_xml fromstring xml_content =
           Inr (map (\<lambda>e. \<lparr>r = (let t = the (get e ''r'') in
                                 if hd t = CHR ''-'' then - int (decimal (tl t)) else int (decimal t)),
                           g = (let t = the (get e ''g'') in
                                 if hd t = CHR ''-'' then - int (decimal (tl t)) else int (decimal t)),
                           b = (let t = the (get e ''b'') in
                                 if hd t = CHR ''-'' then - int (decimal (tl t)) else int (decimal t)),
                           name = get e ''name'', hex = get e ''hex''\<rparr>)
                  (findall root_elem ''color''))"
proof -
  let ?es = "findall root_elem ''color''"
  let ?v = "\<lambda>t. if hd t = CHR ''-'' then - int (decimal (tl t)) else int (decimal t)"
  have val: "py_int (get e k) = Inr (?v (the (get e k)))"
    if "e \<in> set ?es" "k \<in> {''r'', ''g'', ''b''}" for e k
  proof -
    from assms(2) that obtain ds where
      ds: "ds \<noteq> []" "list_all is_digit ds" "length ds \<le> 4300"
      and t: "get e k = Some ds \<or> get e k = Some (CHR ''-'' # ds)"
      by blast
    from t show ?thesis
    proof
      assume g: "get e k = Some ds"
      have "is_digit (hd ds)"
        using ds by (cases ds) simp_all
      then have "hd ds \<noteq> CHR ''-''"
        using is_digit_not_other by blast
      then show ?thesis
        using g int_of_str_digits [OF ds] by simp
    next
      assume g: "get e k = Some (CHR ''-'' # ds)"
      then show ?thesis
        using int_of_str_minus_digits [OF ds] by simp
    qed
  qed
  then have ok: "\<forall>e \<in> set ?es. \<forall>k \<in> {''r'', ''g'', ''b''}. \<exists>n. py_int (get e k) = Inr n"
    by blast
  have "map (\<lambda>e. \<lparr>r = projr (py_int (get e ''r'')), g = projr (py_int (get e ''g'')),
                  b = projr (py_int (get e ''b'')),
                  name = get e ''name'', hex = get e ''hex''\<rparr>) ?es =
        map (\<lambda>e. \<lparr>r = ?v (the (get e ''r'')), g = ?v (the (get e ''g'')),
                  b = ?v (the (get e ''b'')),
                  name = get e ''name'', hex = get e ''hex''\<rparr>) ?es"
    by (rule map_cong [OF refl]) (simp add: val)
  then show ?thesis
    using colors_loop_Inr [OF ok, of "[]"]
    by (simp add: parse_coolors_xml_def assms(1) Let_def)
qed

theorem C6_no_range_check_witness:
  "parse_coolors_xml
     (\<lambda>s. Inr (Element ''palette'' []
        [Element ''color'' [(''name'', ''Glow''), (''r'', ''1000''), (''g'', ''-20''), (''b'', ''255'')] [],
         Element ''color'' [(''r'', ''0''), (''g'', ''999999''), (''b'', ''-256'')] []]))
     ''palette.xml'' =
   Inr [\<lparr>r = 1000, g = - 20, b = 255, name = Some ''Glow'', hex = None\<rparr>,
        \<lparr>r = 0, g = 999999, b = - 256, name = None, hex = None\<rparr>]"
proof -
  let ?root = "Element ''palette'' []
        [Element ''color'' [(''name'', ''Glow''), (''r'', ''1000''), (''g'', ''-20''), (''b'', ''255'')] [],
         Element ''color'' [(''r'', ''0''), (''g'', ''999999''), (''b'', ''-256'')] []]"
  have d: "list_all is_digit ''1000''" "list_all is_digit ''20''" "list_all is_digit ''255''"
    "list_all is_digit ''0''" "list_all is_digit ''999999''" "list_all is_digit ''256''"
    by (simp_all add: is_digit_def)
  have h: "\<forall>e \<in> set (findall ?root ''color''). \<forall>k \<in> {''r'', ''g'', ''b''}.
           \<exists>ds. ds \<noteq> [] \<and> list_all is_digit ds \<and> length ds \<le> 4300
              \<and> (get e k = Some ds \<or> get e k = Some (CHR ''-'' # ds))"
    using d
    by (auto simp: findall_def get_def
          intro: exI [of _ "''1000''"] exI [of _ "''20''"] exI [of _ "''255''"]
            exI [of _ "''0''"] exI [of _ "''999999''"] exI [of _ "''256''"])
  show ?thesis
    using C6_no_range_check [of "\<lambda>s. Inr ?root" "''palette.xml''" ?root, OF refl h]
    by (simp add: findall_def get_def decimal_def digit_value_def)
qed

text \<open>
  Claim C7 says that the three failures have three pairwise distinct kinds. The script
  raises no exception classes of its own: the builder's failure on the empty list and the
  extractor's failure on a text that is not an integer are both a \<^verbatim>\<open>ValueError\<close>.
\<close>

theorem C7_counterexample:
  "create_colormap_json [] None = Inl (ValueError ''No colors provided'')
   \<and> parse_coolors_xml
       (\<lambda>s. Inr (Element ''palette'' []
          [Element ''color'' [(''name'', ''Sky''), (''r'', ''blue''), (''g'', ''0''), (''b'', ''0'')] []]))
       ''palette.xml'' = Inl (ValueError_int_literal ''blue'')
   \<and> class_of (ValueError ''No colors provided'') = class_of (ValueError_int_literal ''blue'')"
  by (simp add: create_colormap_json_def parse_coolors_xml_def findall_def get_def int_of_str_blue)

text \<open>
  Claim C7, amended. The extractor raises no error of its own for the document text:
  whatever \<^verbatim>\<open>ET.fromstring\<close> raises leaves it unchanged. That is a \<^verbatim>\<open>ParseError\<close> when
  the parser rejects the markup, and can be another exception: the
  \<^verbatim>\<open>UnicodeEncodeError\<close> of a text with a lone surrogate is not a \<^verbatim>\<open>ParseError\<close>, and
  \<^verbatim>\<open>except ValueError\<close> catches it. On a well-formed document in which \<^verbatim>\<open>int\<close> refuses
  an \<open>r\<close>, \<open>g\<close> or \<open>b\<close> attribute of a color element, the extractor raises the
  error of one such attribute: a \<^verbatim>\<open>TypeError\<close> when that attribute is absent, a
  \<^verbatim>\<open>ValueError\<close> when its text is refused, never a \<^verbatim>\<open>ParseError\<close>. On the empty list
  the builder raises \<^verbatim>\<open>ValueError("No colors provided")\<close>, whose class is not
  \<^verbatim>\<open>ParseError\<close> and not \<^verbatim>\<open>TypeError\<close>, but is the class of the extractor's error on a
  refused text; these two differ in their message only.
\<close>

theorem C7_error_classes:
  "(fromstring xml_content = Inl perr \<longrightarrow>
      parse_coolors_xml fromstring xml_content = Inl perr)
   \<and> class_of (ET_ParseError d) = ParseError_class
   \<and> class_of (UnicodeEncodeError m) \<noteq> ParseError_class
   \<and> except_catches ValueError_class (UnicodeEncodeError m)
   \<and> (fromstring xml_content = Inr root_elem \<and> e \<in> set (findall root_elem ''color'')
       \<and> k \<in> {''r'', ''g'', ''b''} \<and> py_int (get e k) = Inl err0 \<longrightarrow>
      (\<exists>err. parse_coolors_xml fromstring xml_content = Inl err
         \<and> (\<exists>e' \<in> set (findall root_elem ''color''). \<exists>k' \<in> {''r'', ''g'', ''b''}.
               py_int (get e' k') = Inl err
             \<and> (class_of err = TypeError_class \<longleftrightarrow> get e' k' = None)
             \<and> (class_of err = ValueError_class \<longleftrightarrow> get e' k' \<noteq> None))
         \<and> class_of err \<noteq> ParseError_class
         \<and> err \<noteq> ValueError ''No colors provided''))
   \<and> create_colormap_json [] name_arg = Inl (ValueError ''No colors provided'')
   \<and> class_of (ValueError ''No colors provided'') = ValueError_class
   \<and> class_of (ValueError ''No colors provided'') \<noteq> ParseError_class
   \<and> class_of (ValueError ''No colors provided'') \<noteq> TypeError_class"
proof (intro conjI impI)
  assume "fromstring xml_content = Inl perr"
  then show "parse_coolors_xml fromstring xml_content = Inl perr"
    by (simp add: parse_coolors_xml_def)
next
  assume a: "fromstring xml_content = Inr root_elem \<and> e \<in> set (findall root_elem ''color'')
       \<and> k \<in> {''r'', ''g'', ''b''} \<and> py_int (get e k) = Inl err0"
  then have a1: "fromstring xml_content = Inr root_elem"
    and a2: "e \<in> set (findall root_elem ''color'')"
    and a3: "k \<in> {''r'', ''g'', ''b''}" and a4: "py_int (get e k) = Inl err0"
    by simp_all
  from parse_coolors_xml_failure [of fromstring xml_content root_elem e k err0] a1 a2 a3 a4
  obtain bad k' err where
    bad: "bad \<in> set (findall root_elem ''color'')" and k': "k' \<in> {''r'', ''g'', ''b''}"
    and err: "py_int (get bad k') = Inl err"
    and p: "parse_coolors_xml fromstring xml_content = Inl err"
    by blast
  show "\<exists>err. parse_coolors_xml fromstring xml_content = Inl err
         \<and> (\<exists>e' \<in> set (findall root_elem ''color''). \<exists>k' \<in> {''r'', ''g'', ''b''}.
               py_int (get e' k') = Inl err
             \<and> (class_of err = TypeError_class \<longleftrightarrow> get e' k' = None)
             \<and> (class_of err = ValueError_class \<longleftrightarrow> get e' k' \<noteq> None))
         \<and> class_of err \<noteq> ParseError_class
         \<and> err \<noteq> ValueError ''No colors provided''"
  proof (intro exI [of _ err] conjI bexI [of _ bad] bexI [of _ k'])
    show "parse_coolors_xml fromstring xml_content = Inl err"
      by (rule p)
    show "py_int (get bad k') = Inl err"
      by (rule err)
    show "k' \<in> {''r'', ''g'', ''b''}"
      by (rule k')
    show "bad \<in> set (findall root_elem ''color'')"
      by (rule bad)
  qed (use py_int_error_class [OF err, of "''No colors provided''"] in simp_all)
qed (simp_all add: create_colormap_json_def except_catches_def)

theorem C7_error_classes_witness:
  "parse_coolors_xml (\<lambda>s. Inl (ET_ParseError ''mismatched tag: line 1, column 8'')) ''<a><b></a>'' =
     Inl (ET_ParseError ''mismatched tag: line 1, column 8'')
   \<and> parse_coolors_xml (\<lambda>s. Inl (UnicodeEncodeError ''surrogates not allowed''))
       [60, 112, 62, 55296, 60, 47, 112, 62 :: nat] =
     Inl (UnicodeEncodeError ''surrogates not allowed'')
   \<and> (\<exists>err. parse_coolors_xml
          (\<lambda>s. Inr (Element ''palette'' []
             [Element ''color'' [(''name'', ''Sky''), (''r'', ''blue''), (''g'', ''0''), (''b'', ''0'')] []]))
          ''palette.xml'' = Inl err
        \<and> class_of err \<noteq> ParseError_class
        \<and> err \<noteq> ValueError ''No colors provided'')
   \<and> create_colormap_json [] None = Inl (ValueError ''No colors provided'')"
proof -
  let ?e = "Element ''color'' [(''name'', ''Sky''), (''r'', ''blue''), (''g'', ''0''), (''b'', ''0'')] []"
  let ?root = "Element ''palette'' [] [?e]"
  let ?d = "ET_ParseError ''mismatched tag: line 1, column 8''"
  let ?u = "UnicodeEncodeError ''surrogates not allowed''"
  note bad_markup = C7_error_classes [of "\<lambda>s. Inl ?d" "''<a><b></a>''" ?d, THEN conjunct1,
      THEN mp, OF refl]
  note bad_text = C7_error_classes [of "\<lambda>s. Inl ?u" "[60, 112, 62, 55296, 60, 47, 112, 62 :: nat]" ?u,
      THEN conjunct1, THEN mp, OF refl]
  have h: "(\<lambda>s. Inr ?root) ''palette.xml'' = Inr ?root \<and> ?e \<in> set (findall ?root ''color'')
       \<and> ''r'' \<in> {''r'', ''g'', ''b''}
       \<and> py_int (get ?e ''r'') = Inl (ValueError_int_literal ''blue'')"
    by (simp add: findall_def get_def int_of_str_blue)
  note bad_color = C7_error_classes [of "\<lambda>s. Inr ?root" "''palette.xml''" _ _ _ ?root ?e "''r''"
      "ValueError_int_literal ''blue''", THEN conjunct2, THEN conjunct2, THEN conjunct2,
      THEN conjunct2, THEN conjunct1, THEN mp, OF h]
  then obtain err where
    "parse_coolors_xml (\<lambda>s. Inr ?root) ''palette.xml'' = Inl err"
    "class_of err \<noteq> ParseError_class" "err \<noteq> ValueError ''No colors provided''"
    by (elim exE conjE) (rule that, assumption+)
  then have 2: "\<exists>err. parse_coolors_xml (\<lambda>s. Inr ?root) ''palette.xml'' = Inl err
        \<and> class_of err \<noteq> ParseError_class
        \<and> err \<noteq> ValueError ''No colors provided''"
    by (intro exI [of _ err] conjI)
  note empty = C7_error_classes [where name_arg = None, THEN conjunct2, THEN conjunct2,
      THEN conjunct2, THEN conjunct2, THEN conjunct2, THEN conjunct1]
  show ?thesis
    using bad_markup bad_text 2 empty by (intro conjI)
qed

text \<open>
  Claim C8 says that the error of a failed extraction identifies the attribute and the
  element that failed. The error is the one \<^verbatim>\<open>int\<close> raised: a missing \<open>r\<close> in the
  first element and a missing \<open>b\<close> in the second give the same \<^verbatim>\<open>TypeError\<close>, and the
  text \<^verbatim>\<open>x\<close> as \<open>r\<close> of the first element and as \<open>b\<close> of the second give the
  same \<^verbatim>\<open>ValueError\<close>.
\<close>

theorem C8_counterexample:
  "parse_coolors_xml
     (\<lambda>s. Inr (Element ''palette'' []
        [Element ''color'' [(''name'', ''A''), (''g'', ''1''), (''b'', ''2'')] [],
         Element ''color'' [(''name'', ''B''), (''r'', ''1''), (''g'', ''2''), (''b'', ''3'')] []]))
     ''palette.xml'' = Inl TypeError_int_None
   \<and> parse_coolors_xml
     (\<lambda>s. Inr (Element ''palette'' []
        [Element ''color'' [(''name'', ''A''), (''r'', ''1''), (''g'', ''2''), (''b'', ''3'')] [],
         Element ''color'' [(''name'', ''B''), (''r'', ''1''), (''g'', ''2'')] []]))
     ''palette.xml'' = Inl TypeError_int_None
   \<and> parse_coolors_xml
     (\<lambda>s. Inr (Element ''palette'' []
        [Element ''color'' [(''name'', ''A''), (''r'', ''x''), (''g'', ''1''), (''b'', ''2'')] [],
         Element ''color'' [(''name'', ''B''), (''r'', ''1''), (''g'', ''2''), (''b'', ''3'')] []]))
     ''palette.xml'' = Inl (ValueError_int_literal ''x'')
   \<and> parse_coolors_xml
     (\<lambda>s. Inr (Element ''palette'' []
        [Element ''color'' [(''name'', ''A''), (''r'', ''1''), (''g'', ''2''), (''b'', ''3'')] [],
         Element ''color'' [(''name'', ''B''), (''r'', ''1''), (''g'', ''2''), (''b'', ''x'')] []]))
     ''palette.xml'' = Inl (ValueError_int_literal ''x'')"
  by (simp add: parse_coolors_xml_def findall_def get_def int_of_str_1 int_of_str_2 int_of_str_3
        int_of_str_x)

text \<open>
  Claim C8, amended. For every well-formed document in which \<^verbatim>\<open>int\<close> refuses an \<open>r\<close>,
  \<open>g\<close> or \<open>b\<close> attribute of some color element, extraction fails for the whole
  document. The result is the error that \<^verbatim>\<open>int\<close> raises on the first refused attribute
  of the first such element, in document order and in the order \<open>r\<close>, \<open>g\<close>, \<open>b\<close>:
  the \<^verbatim>\<open>TypeError\<close> of \<^verbatim>\<open>int(None)\<close> when that attribute is missing; when it has a
  text, the \<^verbatim>\<open>ValueError\<close> of an invalid literal, raised for this text, or the
  \<^verbatim>\<open>ValueError\<close> of the digit limit, which holds a number of digits \<open>n\<close> with
  \<open>4300 < n\<close> and \<open>n\<close> at most the length of the text, and not the text (for a text
  of digits only, \<open>n\<close> is its length: \<open>int_of_str_too_many_digits\<close>). The records of the
  elements before it are not returned, and \<^verbatim>\<open>main\<close> dumps nothing. The error names
  neither the attribute nor the element.
\<close>

theorem C8_first_failure:
  assumes "fromstring xml_content = Inr root_elem"
    and "e \<in> set (findall root_elem ''color'')"
    and "k \<in> {''r'', ''g'', ''b''}"
    and "py_int (get e k) = Inl err0"
  shows "\<exists>good bad rest k' err.
           findall root_elem ''color'' = good @ bad # rest
         \<and> (\<forall>e' \<in> set good. \<forall>k'' \<in> {''r'', ''g'', ''b''}. \<exists>n. py_int (get e' k'') = Inr n)
         \<and> (k' = ''r''
              \<or> (k' = ''g'' \<and> (\<exists>n. py_int (get bad ''r'') = Inr n))
              \<or> (k' = ''b'' \<and> (\<exists>n. py_int (get bad ''r'') = Inr n)
                    \<and> (\<exists>n. py_int (get bad ''g'') = Inr n)))
         \<and> py_int (get bad k') = Inl err
         \<and> ((get bad k' = None \<and> err = TypeError_int_None)
              \<or> (\<exists>s. get bad k' = Some s \<and>
                    (err = ValueError_int_literal s
                     \<or> (\<exists>n. 4300 < n \<and> n \<le> length s \<and> err = ValueError_int_digits n))))
         \<and> parse_coolors_xml fromstring xml_content = Inl err
         \<and> main fromstring xml_content name_arg = None"
proof -
  from colors_loop_failure [OF assms(2-4), of "[]"] obtain good bad rest where
    es: "findall root_elem ''color'' = good @ bad # rest"
    and good: "\<forall>e' \<in> set good. \<forall>k'' \<in> {''r'', ''g'', ''b''}. \<exists>n. py_int (get e' k'') = Inr n"
    and bad: "\<exists>k' \<in> {''r'', ''g'', ''b''}. \<exists>err. py_int (get bad k') = Inl err"
    and loop: "colors_loop (findall root_elem ''color'') [] =
             Inl (case py_int (get bad ''r'') of
                    Inl err \<Rightarrow> err
                  | Inr rv \<Rightarrow>
                 (case py_int (get bad ''g'') of
                    Inl err \<Rightarrow> err
                  | Inr gv \<Rightarrow> projl (py_int (get bad ''b''))))"
    by blast
  define err where "err = (case py_int (get bad ''r'') of
                    Inl x \<Rightarrow> x
                  | Inr rv \<Rightarrow>
                 (case py_int (get bad ''g'') of
                    Inl x \<Rightarrow> x
                  | Inr gv \<Rightarrow> projl (py_int (get bad ''b''))))"
  from bad obtain k1 e1 where k1: "k1 \<in> {''r'', ''g'', ''b''}" "py_int (get bad k1) = Inl e1"
    by blast
  from first_refused_attribute [OF k1] obtain k' where
    first: "k' = ''r''
              \<or> (k' = ''g'' \<and> (\<exists>n. py_int (get bad ''r'') = Inr n))
              \<or> (k' = ''b'' \<and> (\<exists>n. py_int (get bad ''r'') = Inr n)
                    \<and> (\<exists>n. py_int (get bad ''g'') = Inr n))"
    and k'0: "py_int (get bad k') =
                Inl (case py_int (get bad ''r'') of
                       Inl x \<Rightarrow> x
                     | Inr rv \<Rightarrow>
                    (case py_int (get bad ''g'') of
                       Inl x \<Rightarrow> x
                     | Inr gv \<Rightarrow> projl (py_int (get bad ''b''))))"
    by (elim exE conjE) (rule that, assumption+)
  have k': "py_int (get bad k') = Inl err"
    unfolding err_def by (rule k'0)
  have kind: "(get bad k' = None \<and> err = TypeError_int_None)
              \<or> (\<exists>s. get bad k' = Some s \<and>
                    (err = ValueError_int_literal s
                     \<or> (\<exists>n. 4300 < n \<and> n \<le> length s \<and> err = ValueError_int_digits n)))"
    by (rule py_int_error [OF k'])
  have p: "parse_coolors_xml fromstring xml_content = Inl err"
    using loop by (simp add: parse_coolors_xml_def assms(1) err_def)
  then have m: "main fromstring xml_content name_arg = None"
    by (simp add: main_def)
  show ?thesis
    by (rule exI [of _ good], rule exI [of _ bad], rule exI [of _ rest], rule exI [of _ k'],
        rule exI [of _ err], intro conjI) (fact es good first k' kind p m)+
qed

theorem C8_first_failure_witness:
  "(\<exists>err. parse_coolors_xml
       (\<lambda>s. Inr (Element ''palette'' []
          [Element ''color'' [(''name'', ''A''), (''r'', ''1''), (''g'', ''2''), (''b'', ''3'')] [],
           Element ''color'' [(''name'', ''B''), (''r'', ''1''), (''g'', ''2'')] [],
           Element ''color'' [(''name'', ''C''), (''r'', ''x''), (''g'', ''2''), (''b'', ''3'')] []]))
       ''palette.xml'' = Inl err
     \<and> (err = TypeError_int_None \<or> (\<exists>s. err = ValueError_int_literal s)
          \<or> (\<exists>n. 4300 < n \<and> err = ValueError_int_digits n)))
   \<and> main
       (\<lambda>s. Inr (Element ''palette'' []
          [Element ''color'' [(''name'', ''A''), (''r'', ''1''), (''g'', ''2''), (''b'', ''3'')] [],
           Element ''color'' [(''name'', ''B''), (''r'', ''1''), (''g'', ''2'')] [],
           Element ''color'' [(''name'', ''C''), (''r'', ''x''), (''g'', ''2''), (''b'', ''3'')] []]))
       ''palette.xml'' None = None"
proof -
  let ?e = "Element ''color'' [(''name'', ''C''), (''r'', ''x''), (''g'', ''2''), (''b'', ''3'')] []"
  let ?root = "Element ''palette'' []
          [Element ''color'' [(''name'', ''A''), (''r'', ''1''), (''g'', ''2''), (''b'', ''3'')] [],
           Element ''color'' [(''name'', ''B''), (''r'', ''1''), (''g'', ''2'')] [],
           ?e]"
  have h2: "?e \<in> set (findall ?root ''color'')"
    by (simp add: findall_def)
  have h3: "''r'' \<in> {''r'', ''g'', ''b''}"
    by simp
  have h4: "py_int (get ?e ''r'') = Inl (ValueError_int_literal ''x'')"
    by (simp add: get_def int_of_str_x)
  note C8_first_failure [of "\<lambda>s. Inr ?root" "''palette.xml''" ?root ?e "''r''"
        "ValueError_int_literal ''x''" None, OF refl h2 h3 h4]
  then obtain bad k' err where
    kind: "(get bad k' = None \<and> err = TypeError_int_None)
              \<or> (\<exists>s. get bad k' = Some s \<and>
                    (err = ValueError_int_literal s
                     \<or> (\<exists>n. 4300 < n \<and> n \<le> length s \<and> err = ValueError_int_digits n)))"
    and p: "parse_coolors_xml (\<lambda>s. Inr ?root) ''palette.xml'' = Inl err"
    and m: "main (\<lambda>s. Inr ?root) ''palette.xml'' None = None"
    by (elim exE conjE) (rule that, assumption+)
  from kind have "err = TypeError_int_None \<or> (\<exists>s. err = ValueError_int_literal s)
          \<or> (\<exists>n. 4300 < n \<and> err = ValueError_int_digits n)"
    by blast
  with p m show ?thesis
    by (intro conjI exI [of _ err])
qed

text \<open>
  Claim C9. For every well-formed document whose root has no child with the tag
  \<^verbatim>\<open>color\<close>, the extractor succeeds and returns the empty list. The builder is the one
  that refuses the empty list, with \<^verbatim>\<open>ValueError("No colors provided")\<close> and whatever
  name is given, and no colormap comes out of \<^verbatim>\<open>main\<close>.
\<close>

theorem C9_empty_palette:
  assumes "fromstring xml_content = Inr root_elem"
    and "\<forall>e \<in> set (children root_elem). tag e \<noteq> ''color''"
  shows "parse_coolors_xml fromstring xml_content = Inr []
       \<and> create_colormap_json [] name_arg = Inl (ValueError ''No colors provided'')
       \<and> main fromstring xml_content name_arg = None"
proof -
  have "filter (\<lambda>e. tag e = ''color'') (children root_elem) = []"
    using assms(2) by (simp add: filter_empty_conv)
  then have "parse_coolors_xml fromstring xml_content = Inr []"
    by (simp add: parse_coolors_xml_def assms(1) findall_def)
  then show ?thesis
    by (simp add: create_colormap_json_def main_def)
qed

theorem C9_empty_palette_witness:
  "parse_coolors_xml
     (\<lambda>s. Inr (Element ''palette'' [(''name'', ''empty'')]
                 [Element ''title'' [] [], Element ''Color'' [(''r'', ''1''), (''g'', ''2''), (''b'', ''3'')] []]))
     ''palette.xml'' = Inr []
   \<and> create_colormap_json [] (Some ''Empty'') = Inl (ValueError ''No colors provided'')
   \<and> main
     (\<lambda>s. Inr (Element ''palette'' [(''name'', ''empty'')]
                 [Element ''title'' [] [], Element ''Color'' [(''r'', ''1''), (''g'', ''2''), (''b'', ''3'')] []]))
     ''palette.xml'' (Some ''Empty'') = None"
  using C9_empty_palette [of "\<lambda>s. Inr (Element ''palette'' [(''name'', ''empty'')]
                 [Element ''title'' [] [], Element ''Color'' [(''r'', ''1''), (''g'', ''2''), (''b'', ''3'')] []])"
      "''palette.xml''" _ "Some ''Empty''"]
  by simp

end
